theory Spec2Isabelle
  imports Main "HOL-Library.Word"
begin

unbundle bit_operations_syntax

section \<open>Local sockets of libposix: \<^verbatim>\<open>src/posix++/local_socket.cc\<close>\<close>

text \<open>
  The file wraps the kernel calls \<^verbatim>\<open>socket\<close>, \<^verbatim>\<open>socketpair\<close>, \<^verbatim>\<open>bind\<close>,
  \<^verbatim>\<open>connect\<close>, \<^verbatim>\<open>accept\<close>, \<^verbatim>\<open>sendmsg\<close> and \<^verbatim>\<open>recvmsg\<close>. The embedding makes
  the kernel explicit: a run takes the replies the kernel will give to the calls still
  to come, and logs every call it issues with its arguments. An exception, an
  \<^verbatim>\<open>assert\<close> that aborts and a call that has not been answered are values of the
  result.
\<close>

subsection \<open>Failures\<close>

text \<open>
  \<^verbatim>\<open>posix::error(errno)\<close>, \<^verbatim>\<open>posix::fatal_error(errno)\<close> and
  \<^verbatim>\<open>posix::bad_descriptor()\<close> are the three exception classes of \<^verbatim>\<open>error.h\<close>;
  \<^verbatim>\<open>std::logic_error\<close> is thrown by \<^verbatim>\<open>recv_descriptor\<close>; \<open>Assertion_failed\<close> is
  the abort of a failing \<^verbatim>\<open>assert\<close>; \<open>Null_dereference\<close> is a write through the null
  pointer that \<^verbatim>\<open>CMSG_FIRSTHDR\<close> may return. \<open>Undefined_behaviour\<close> is no exception:
  \<^verbatim>\<open>strcpy\<close> has written past the end of the array it copies into, C++ gives the rest
  of the run no meaning, and the run ends there.
\<close>

datatype failure =
    Error int
  | Fatal_error int
  | Bad_descriptor
  | Logic_error string
  | Assertion_failed
  | Null_dereference
  | Undefined_behaviour

text \<open>
  The result of an operation: \<open>Returns x\<close>, \<open>Throws e\<close>, or \<open>None\<close> when the
  kernel call the operation is in has not been answered by the replies given.
\<close>

abbreviation Returns :: "'a \<Rightarrow> (failure + 'a) option" where
  "Returns x \<equiv> Some (Inr x)"

abbreviation Throws :: "failure \<Rightarrow> (failure + 'a) option" where
  "Throws e \<equiv> Some (Inl e)"

subsection \<open>Descriptors and pathnames\<close>

text \<open>
  Modelled from the spec: the class \<^verbatim>\<open>descriptor\<close> (\<^verbatim>\<open>descriptor.h\<close>, not among the
  sources). A descriptor owns one kernel handle, an integer, or is empty (no handle
  owned); \<^verbatim>\<open>assign\<close> takes ownership of a new handle.
\<close>

datatype descriptor = Empty | Owns int

definition assign :: "descriptor \<Rightarrow> int \<Rightarrow> descriptor" where
  "assign d h = Owns h"

text \<open>
  Modelled from the spec: the class \<^verbatim>\<open>pathname\<close> (\<^verbatim>\<open>pathname.h\<close>, not among the
  sources): a byte string with a non-emptiness check and a null-terminated view.
\<close>

type_synonym pathname = string

definition NUL :: char where
  "NUL = CHR 0x00"

definition empty_pathname :: "pathname \<Rightarrow> bool" where
  "empty_pathname p = (p = [])"

definition c_str :: "pathname \<Rightarrow> string" where
  "c_str p = p @ [NUL]"

text \<open>
  \<^verbatim>\<open>strcpy(dst, src)\<close> writes the bytes of \<open>src\<close> up to and including its first
  null byte, from the start of \<open>dst\<close>, an array of \<open>capacity\<close> bytes, and checks
  nothing. The value is the bytes written; it is \<open>None\<close> when they are more than the
  array holds: the write runs past the end of the array, which is undefined behaviour.
  \<^verbatim>\<open>strlen(s)\<close> counts the bytes before the first null byte.
\<close>

definition strcpy :: "nat \<Rightarrow> string \<Rightarrow> string option" where
  "strcpy capacity src =
     (let bytes = takeWhile (\<lambda>c. c \<noteq> NUL) src @ [NUL]
      in if length bytes \<le> capacity then Some bytes else None)"

definition strlen :: "string \<Rightarrow> nat" where
  "strlen s = length (takeWhile (\<lambda>c. c \<noteq> NUL) s)"

subsection \<open>Kernel structures\<close>

text \<open>
  \<^verbatim>\<open>struct sockaddr_un\<close>: \<open>sun_path\<close> holds the bytes written from the start of the
  array \<^verbatim>\<open>addr.sun_path\<close>, which are never more than the array holds.
\<close>

record sockaddr_un =
  sun_family :: int
  sun_path :: string

text \<open>
  \<^verbatim>\<open>struct iovec\<close> with the contents of the buffer it points to (\<open>None\<close>: the
  buffer has not been initialised).
\<close>

record iovec =
  iov_base :: "8 word list option"
  iov_len :: nat

text \<open>
  The control buffer \<^verbatim>\<open>cmsg_buffer\<close> has room for one \<^verbatim>\<open>struct cmsghdr\<close>
  followed by one \<^verbatim>\<open>int\<close>: the three fields of the header and the \<^verbatim>\<open>int\<close> at
  \<^verbatim>\<open>CMSG_DATA\<close>.
\<close>

record cmsghdr =
  cmsg_len :: nat
  cmsg_level :: int
  cmsg_type :: int
  cmsg_data :: int

text \<open>
  \<^verbatim>\<open>struct msghdr\<close> after \<^verbatim>\<open>memset(&msg, 0, sizeof(msghdr))\<close>: \<open>msg_name\<close> is null
  (\<open>msg_namelen = 0\<close>). \<open>msg_control\<close> is the contents of the control buffer
  (\<open>None\<close>: not initialised).
\<close>

record msghdr =
  msg_namelen :: nat
  msg_iov :: "iovec list"
  msg_iovlen :: nat
  msg_control :: "cmsghdr option"
  msg_controllen :: nat
  msg_flags :: int

subsection \<open>The kernel\<close>

datatype syscall =
    SYS_socket int int int
  | SYS_socketpair int int int
  | SYS_bind int sockaddr_un nat
  | SYS_connect int sockaddr_un nat
  | SYS_accept int
  | SYS_accept4 int int
  | SYS_sendmsg int msghdr int
  | SYS_recvmsg int msghdr int

text \<open>
  What the kernel answers to one call: the return value, \<^verbatim>\<open>errno\<close>, and what it
  has written through the pointers it was given: the two descriptors of
  \<^verbatim>\<open>socketpair\<close>, and for \<^verbatim>\<open>recvmsg\<close> the control buffer and
  \<^verbatim>\<open>msg_controllen\<close>.
\<close>

record reply =
  retval :: int
  errno :: int
  r_fds :: "int \<times> int"
  r_control :: cmsghdr
  r_controllen :: nat

record world =
  pending :: "reply list"
  issued :: "syscall list"

subsection \<open>The build\<close>

text \<open>
  Everything the file takes from the system headers, from \<^verbatim>\<open>config.h\<close> and from the
  base class is a parameter: the constants, the macros that may be undefined
  (\<open>None\<close>), the sizes, and \<^verbatim>\<open>descriptor::fd\<close> on an empty descriptor
  (\<open>empty_fd\<close>). \<open>cloexec\<close> is \<^verbatim>\<open>descriptor::cloexec\<close>, of \<^verbatim>\<open>descriptor.cc\<close>,
  which is not among the sources.
\<close>

record build =
  AF_LOCAL :: int
  SOCK_STREAM :: int
  SOCK_CLOEXEC :: "int option"
  HAVE_ACCEPT4 :: bool
  MSG_CMSG_CLOEXEC :: "int option"
  NDEBUG :: bool
  SOL_SOCKET :: int
  SCM_RIGHTS :: int
  EINTR :: int
  EMFILE :: int
  ENFILE :: int
  ENOBUFS :: int
  ENOMEM :: int
  EBADF :: int
  sizeof_int :: nat
  sizeof_cmsghdr :: nat
  sizeof_sun_family :: nat
  sizeof_sun_path :: nat
  CMSG_LEN :: "nat \<Rightarrow> nat"
  CMSG_SPACE :: "nat \<Rightarrow> nat"
  empty_fd :: int
  cloexec :: "descriptor \<Rightarrow> bool \<Rightarrow> world \<Rightarrow> (failure + unit) option \<times> world"

text \<open>
  Modelled from the spec: \<^verbatim>\<open>descriptor::fd()\<close>, the current handle value; the spec gives
  no value for an empty descriptor.
\<close>

definition fd :: "build \<Rightarrow> descriptor \<Rightarrow> int" where
  "fd b d = (case d of Empty \<Rightarrow> empty_fd b | Owns h \<Rightarrow> h)"

text \<open>
  The macro \<^verbatim>\<open>CMSG_FIRSTHDR(&msg)\<close> of \<^verbatim>\<open><sys/socket.h>\<close> is the start of the
  control buffer, or null when \<open>msg_controllen\<close> is less than the size of a header:
  the value says whether the pointer is non-null.
\<close>

definition CMSG_FIRSTHDR :: "build \<Rightarrow> msghdr \<Rightarrow> bool" where
  "CMSG_FIRSTHDR b msg = (sizeof_cmsghdr b \<le> msg_controllen msg)"

text \<open>The three \<^verbatim>\<open>static_assert\<close>s of \<^verbatim>\<open>send_descriptor\<close> and \<^verbatim>\<open>recv_descriptor\<close>.\<close>

definition static_asserts :: "build \<Rightarrow> bool" where
  "static_asserts b =
     (sizeof_cmsghdr b \<le> CMSG_SPACE b (sizeof_int b) \<and>
      CMSG_SPACE b (sizeof_int b) \<le> CMSG_SPACE b (sizeof_int b) \<and>
      CMSG_LEN b (sizeof_int b) \<le> CMSG_SPACE b (sizeof_int b))"

subsection \<open>Construction and pairing\<close>

text \<open>
  \<^verbatim>\<open>d.cloexec(true);\<close> followed by the rest of the function, which returns \<open>x\<close>:
  an exception of \<^verbatim>\<open>cloexec\<close> leaves the function.
\<close>

definition cloexec_true :: "build \<Rightarrow> descriptor \<Rightarrow> world \<Rightarrow> 'a \<Rightarrow> (failure + 'a) option \<times> world" where
  "cloexec_true b d w x =
     (case cloexec b d True w of
        (Some (Inr u), w') \<Rightarrow> (Returns x, w')
      | (Some (Inl e), w') \<Rightarrow> (Throws e, w')
      | (None, w') \<Rightarrow> (None, w'))"

text \<open>\<^verbatim>\<open>local_socket::local_socket()\<close>, lines 24 to 48.\<close>

definition local_socket_new :: "build \<Rightarrow> world \<Rightarrow> (failure + descriptor) option \<times> world" where
  "local_socket_new b w =
     (let flags = (case SOCK_CLOEXEC b of None \<Rightarrow> 0 | Some c \<Rightarrow> 0 OR c);
          w' = w\<lparr>issued := issued w @ [SYS_socket (AF_LOCAL b) (SOCK_STREAM b OR flags) 0]\<rparr>
      in case pending w of
           [] \<Rightarrow> (None, w')
         | r # rs \<Rightarrow>
             if retval r = - 1 then
               (if errno r = EMFILE b \<or> errno r = ENFILE b \<or>
                   errno r = ENOBUFS b \<or> errno r = ENOMEM b
                then (Throws (Fatal_error (errno r)), w'\<lparr>pending := rs\<rparr>)
                else (Throws (Error (errno r)), w'\<lparr>pending := rs\<rparr>))
             else
               (let this = assign Empty (retval r) in
                if SOCK_CLOEXEC b = None then cloexec_true b this (w'\<lparr>pending := rs\<rparr>) this
                else (Returns this, w'\<lparr>pending := rs\<rparr>)))"

text \<open>
  \<^verbatim>\<open>local_socket::pair()\<close>, lines 50 to 77. The constructor
  \<^verbatim>\<open>local_socket(int)\<close> of the header makes a socket that owns the handle.
\<close>

definition local_socket_pair ::
  "build \<Rightarrow> world \<Rightarrow> (failure + descriptor \<times> descriptor) option \<times> world" where
  "local_socket_pair b w =
     (let flags = (case SOCK_CLOEXEC b of None \<Rightarrow> 0 | Some c \<Rightarrow> 0 OR c);
          w' = w\<lparr>issued := issued w @ [SYS_socketpair (AF_LOCAL b) (SOCK_STREAM b OR flags) 0]\<rparr>
      in case pending w of
           [] \<Rightarrow> (None, w')
         | r # rs \<Rightarrow>
             if retval r = - 1 then
               (if errno r = EMFILE b \<or> errno r = ENFILE b \<or> errno r = ENOMEM b
                then (Throws (Fatal_error (errno r)), w'\<lparr>pending := rs\<rparr>)
                else (Throws (Error (errno r)), w'\<lparr>pending := rs\<rparr>))
             else
               (let pair = (Owns (fst (r_fds r)), Owns (snd (r_fds r))) in
                if SOCK_CLOEXEC b = None then
                  (case cloexec_true b (fst pair) (w'\<lparr>pending := rs\<rparr>) () of
                     (Some (Inr u), w'') \<Rightarrow> cloexec_true b (snd pair) w'' pair
                   | (Some (Inl e), w'') \<Rightarrow> (Throws e, w'')
                   | (None, w'') \<Rightarrow> (None, w''))
                else (Returns pair, w'\<lparr>pending := rs\<rparr>)))"

subsection \<open>Bind and connect\<close>

text \<open>
  The loop at the label \<^verbatim>\<open>retry\<close> of \<^verbatim>\<open>bind\<close>, lines 91 to 103: one call of
  \<^verbatim>\<open>::bind\<close> for each reply, with the replies still to come and the calls issued so
  far.
\<close>

fun bind_retry ::
  "build \<Rightarrow> int \<Rightarrow> sockaddr_un \<Rightarrow> nat \<Rightarrow> reply list \<Rightarrow> syscall list \<Rightarrow>
   (failure + unit) option \<times> world" where
  "bind_retry b sockfd addr addrlen [] tr =
     (None, \<lparr>pending = [], issued = tr @ [SYS_bind sockfd addr addrlen]\<rparr>)"
| "bind_retry b sockfd addr addrlen (r # rs) tr =
     (if retval r = - 1 then
        (if errno r = EINTR b then
           bind_retry b sockfd addr addrlen rs (tr @ [SYS_bind sockfd addr addrlen])
         else if errno r = ENOMEM b then
           (Throws (Fatal_error (errno r)),
            \<lparr>pending = rs, issued = tr @ [SYS_bind sockfd addr addrlen]\<rparr>)
         else if errno r = EBADF b then
           (Throws Bad_descriptor,
            \<lparr>pending = rs, issued = tr @ [SYS_bind sockfd addr addrlen]\<rparr>)
         else
           (Throws (Error (errno r)),
            \<lparr>pending = rs, issued = tr @ [SYS_bind sockfd addr addrlen]\<rparr>))
      else (Returns (), \<lparr>pending = rs, issued = tr @ [SYS_bind sockfd addr addrlen]\<rparr>))"

text \<open>
  The address of lines 85 to 89 (and 114 to 118): the family and the path copied by
  \<^verbatim>\<open>strcpy\<close> into the array \<^verbatim>\<open>addr.sun_path\<close>, or \<open>None\<close> when that copy runs past
  the end of the array; and the length
  \<^verbatim>\<open>sizeof(addr.sun_family) + strlen(addr.sun_path)\<close>, a \<^verbatim>\<open>socklen_t\<close> that no path
  in the array is long enough to wrap.
\<close>

definition sockaddr_of :: "build \<Rightarrow> pathname \<Rightarrow> sockaddr_un option" where
  "sockaddr_of b pathname =
     (case strcpy (sizeof_sun_path b) (c_str pathname) of
        None \<Rightarrow> None
      | Some path \<Rightarrow> Some \<lparr>sun_family = AF_LOCAL b, sun_path = path\<rparr>)"

definition addrlen_of :: "build \<Rightarrow> sockaddr_un \<Rightarrow> nat" where
  "addrlen_of b addr = sizeof_sun_family b + strlen (sun_path addr)"

text \<open>\<^verbatim>\<open>local_socket::bind(pathname)\<close>, lines 79 to 106.\<close>

definition local_socket_bind ::
  "build \<Rightarrow> pathname \<Rightarrow> world \<Rightarrow> (failure + descriptor) option \<times> world" where
  "local_socket_bind b pathname w =
     (if \<not> NDEBUG b \<and> empty_pathname pathname then (Throws Assertion_failed, w)
      else
        case local_socket_new b w of
          (None, w1) \<Rightarrow> (None, w1)
        | (Some (Inl e), w1) \<Rightarrow> (Throws e, w1)
        | (Some (Inr socket), w1) \<Rightarrow>
            (case sockaddr_of b pathname of
               None \<Rightarrow> (Throws Undefined_behaviour, w1)
             | Some addr \<Rightarrow>
                 (let addrlen = addrlen_of b addr
                  in case bind_retry b (fd b socket) addr addrlen (pending w1) (issued w1) of
                       (None, w2) \<Rightarrow> (None, w2)
                     | (Some (Inl e), w2) \<Rightarrow> (Throws e, w2)
                     | (Some (Inr u), w2) \<Rightarrow> (Returns socket, w2))))"

text \<open>The loop at the label \<^verbatim>\<open>retry\<close> of \<^verbatim>\<open>connect\<close>, lines 120 to 130.\<close>

fun connect_retry ::
  "build \<Rightarrow> int \<Rightarrow> sockaddr_un \<Rightarrow> nat \<Rightarrow> reply list \<Rightarrow> syscall list \<Rightarrow>
   (failure + unit) option \<times> world" where
  "connect_retry b sockfd addr addrlen [] tr =
     (None, \<lparr>pending = [], issued = tr @ [SYS_connect sockfd addr addrlen]\<rparr>)"
| "connect_retry b sockfd addr addrlen (r # rs) tr =
     (if retval r = - 1 then
        (if errno r = EINTR b then
           connect_retry b sockfd addr addrlen rs (tr @ [SYS_connect sockfd addr addrlen])
         else if errno r = EBADF b then
           (Throws Bad_descriptor,
            \<lparr>pending = rs, issued = tr @ [SYS_connect sockfd addr addrlen]\<rparr>)
         else
           (Throws (Error (errno r)),
            \<lparr>pending = rs, issued = tr @ [SYS_connect sockfd addr addrlen]\<rparr>))
      else (Returns (), \<lparr>pending = rs, issued = tr @ [SYS_connect sockfd addr addrlen]\<rparr>))"

text \<open>\<^verbatim>\<open>local_socket::connect(pathname)\<close>, lines 108 to 133.\<close>

definition local_socket_connect ::
  "build \<Rightarrow> pathname \<Rightarrow> world \<Rightarrow> (failure + descriptor) option \<times> world" where
  "local_socket_connect b pathname w =
     (if \<not> NDEBUG b \<and> empty_pathname pathname then (Throws Assertion_failed, w)
      else
        case local_socket_new b w of
          (None, w1) \<Rightarrow> (None, w1)
        | (Some (Inl e), w1) \<Rightarrow> (Throws e, w1)
        | (Some (Inr socket), w1) \<Rightarrow>
            (case sockaddr_of b pathname of
               None \<Rightarrow> (Throws Undefined_behaviour, w1)
             | Some addr \<Rightarrow>
                 (let addrlen = addrlen_of b addr
                  in case connect_retry b (fd b socket) addr addrlen (pending w1) (issued w1) of
                       (None, w2) \<Rightarrow> (None, w2)
                     | (Some (Inl e), w2) \<Rightarrow> (Throws e, w2)
                     | (Some (Inr u), w2) \<Rightarrow> (Returns socket, w2))))"

subsection \<open>Accept\<close>

text \<open>
  The call of lines 141 to 146: \<^verbatim>\<open>accept4\<close> with \<^verbatim>\<open>SOCK_CLOEXEC\<close> when the build
  has both, \<^verbatim>\<open>accept\<close> otherwise.
\<close>

definition accept_call :: "build \<Rightarrow> int \<Rightarrow> syscall" where
  "accept_call b sockfd =
     (case SOCK_CLOEXEC b of
        Some c \<Rightarrow> if HAVE_ACCEPT4 b then SYS_accept4 sockfd c else SYS_accept sockfd
      | None \<Rightarrow> SYS_accept sockfd)"

text \<open>
  The loop at the label \<^verbatim>\<open>retry\<close> of \<^verbatim>\<open>accept\<close>, lines 140 to 160; it returns
  \<^verbatim>\<open>connfd\<close>.
\<close>

fun accept_retry ::
  "build \<Rightarrow> int \<Rightarrow> reply list \<Rightarrow> syscall list \<Rightarrow> (failure + int) option \<times> world" where
  "accept_retry b sockfd [] tr = (None, \<lparr>pending = [], issued = tr @ [accept_call b sockfd]\<rparr>)"
| "accept_retry b sockfd (r # rs) tr =
     (if retval r = - 1 then
        (if errno r = EINTR b then accept_retry b sockfd rs (tr @ [accept_call b sockfd])
         else if errno r = EMFILE b \<or> errno r = ENFILE b \<or>
                 errno r = ENOBUFS b \<or> errno r = ENOMEM b then
           (Throws (Fatal_error (errno r)), \<lparr>pending = rs, issued = tr @ [accept_call b sockfd]\<rparr>)
         else if errno r = EBADF b then
           (Throws Bad_descriptor, \<lparr>pending = rs, issued = tr @ [accept_call b sockfd]\<rparr>)
         else
           (Throws (Error (errno r)), \<lparr>pending = rs, issued = tr @ [accept_call b sockfd]\<rparr>))
      else (Returns (retval r), \<lparr>pending = rs, issued = tr @ [accept_call b sockfd]\<rparr>))"

text \<open>
  \<^verbatim>\<open>local_socket::accept()\<close>, lines 135 to 168. The declaration
  \<^verbatim>\<open>local_socket connection;\<close> runs the default constructor.
\<close>

definition local_socket_accept ::
  "build \<Rightarrow> descriptor \<Rightarrow> world \<Rightarrow> (failure + descriptor) option \<times> world" where
  "local_socket_accept b this w =
     (case local_socket_new b w of
        (None, w1) \<Rightarrow> (None, w1)
      | (Some (Inl e), w1) \<Rightarrow> (Throws e, w1)
      | (Some (Inr connection), w1) \<Rightarrow>
          (case accept_retry b (fd b this) (pending w1) (issued w1) of
             (None, w2) \<Rightarrow> (None, w2)
           | (Some (Inl e), w2) \<Rightarrow> (Throws e, w2)
           | (Some (Inr connfd), w2) \<Rightarrow>
               (let connection' = assign connection connfd in
                if HAVE_ACCEPT4 b \<and> SOCK_CLOEXEC b \<noteq> None then (Returns connection', w2)
                else cloexec_true b connection' w2 connection')))"

subsection \<open>Sending and receiving a descriptor\<close>

text \<open>The loop at the label \<^verbatim>\<open>retry\<close> of \<^verbatim>\<open>send_descriptor\<close>, lines 203 to 216.\<close>

fun sendmsg_retry ::
  "build \<Rightarrow> int \<Rightarrow> msghdr \<Rightarrow> int \<Rightarrow> reply list \<Rightarrow> syscall list \<Rightarrow>
   (failure + unit) option \<times> world" where
  "sendmsg_retry b sockfd msg flags [] tr =
     (None, \<lparr>pending = [], issued = tr @ [SYS_sendmsg sockfd msg flags]\<rparr>)"
| "sendmsg_retry b sockfd msg flags (r # rs) tr =
     (if retval r = - 1 then
        (if errno r = EINTR b then
           sendmsg_retry b sockfd msg flags rs (tr @ [SYS_sendmsg sockfd msg flags])
         else if errno r = ENOMEM b then
           (Throws (Fatal_error (errno r)),
            \<lparr>pending = rs, issued = tr @ [SYS_sendmsg sockfd msg flags]\<rparr>)
         else if errno r = EBADF b then
           (Throws Bad_descriptor,
            \<lparr>pending = rs, issued = tr @ [SYS_sendmsg sockfd msg flags]\<rparr>)
         else
           (Throws (Error (errno r)),
            \<lparr>pending = rs, issued = tr @ [SYS_sendmsg sockfd msg flags]\<rparr>))
      else (Returns (), \<lparr>pending = rs, issued = tr @ [SYS_sendmsg sockfd msg flags]\<rparr>))"

text \<open>
  The message of lines 183 to 201: one buffer of one byte, and the control buffer of
  \<^verbatim>\<open>CMSG_SPACE(sizeof(int))\<close> bytes, written through \<^verbatim>\<open>CMSG_FIRSTHDR(&msg)\<close>.
\<close>

definition send_descriptor_msg :: "build \<Rightarrow> descriptor \<Rightarrow> failure + msghdr" where
  "send_descriptor_msg b descriptor =
     (let data_buffer = [0];
          iov = \<lparr>iov_base = Some data_buffer, iov_len = length data_buffer\<rparr>;
          msg = \<lparr>msg_namelen = 0, msg_iov = [iov], msg_iovlen = 1, msg_control = None,
                 msg_controllen = CMSG_SPACE b (sizeof_int b), msg_flags = 0\<rparr>
      in if CMSG_FIRSTHDR b msg then
           Inr (msg\<lparr>msg_control :=
                  Some \<lparr>cmsg_len = CMSG_LEN b (sizeof_int b), cmsg_level = SOL_SOCKET b,
                        cmsg_type = SCM_RIGHTS b, cmsg_data = fd b descriptor\<rparr>\<rparr>)
         else Inl Null_dereference)"

text \<open>\<^verbatim>\<open>local_socket::send_descriptor(descriptor)\<close>, lines 170 to 217.\<close>

definition send_descriptor ::
  "build \<Rightarrow> descriptor \<Rightarrow> descriptor \<Rightarrow> world \<Rightarrow> (failure + unit) option \<times> world" where
  "send_descriptor b this descriptor w =
     (case send_descriptor_msg b descriptor of
        Inl e \<Rightarrow> (Throws e, w)
      | Inr msg \<Rightarrow> sendmsg_retry b (fd b this) msg 0 (pending w) (issued w))"

text \<open>
  The loop at the label \<^verbatim>\<open>retry\<close> of \<^verbatim>\<open>recv_descriptor\<close>, lines 253 to 266; it
  returns the message as the kernel has left it.
\<close>

fun recvmsg_retry ::
  "build \<Rightarrow> int \<Rightarrow> msghdr \<Rightarrow> int \<Rightarrow> reply list \<Rightarrow> syscall list \<Rightarrow>
   (failure + msghdr) option \<times> world" where
  "recvmsg_retry b sockfd msg flags [] tr =
     (None, \<lparr>pending = [], issued = tr @ [SYS_recvmsg sockfd msg flags]\<rparr>)"
| "recvmsg_retry b sockfd msg flags (r # rs) tr =
     (if retval r = - 1 then
        (if errno r = EINTR b then
           recvmsg_retry b sockfd msg flags rs (tr @ [SYS_recvmsg sockfd msg flags])
         else if errno r = ENOMEM b then
           (Throws (Fatal_error (errno r)),
            \<lparr>pending = rs, issued = tr @ [SYS_recvmsg sockfd msg flags]\<rparr>)
         else if errno r = EBADF b then
           (Throws Bad_descriptor,
            \<lparr>pending = rs, issued = tr @ [SYS_recvmsg sockfd msg flags]\<rparr>)
         else
           (Throws (Error (errno r)),
            \<lparr>pending = rs, issued = tr @ [SYS_recvmsg sockfd msg flags]\<rparr>))
      else
        (Returns (msg\<lparr>msg_control := Some (r_control r), msg_controllen := r_controllen r\<rparr>),
         \<lparr>pending = rs, issued = tr @ [SYS_recvmsg sockfd msg flags]\<rparr>))"

text \<open>
  Lines 268 to 277: the descriptor taken from the message, or the exception. The control
  buffer is read only where \<^verbatim>\<open>CMSG_FIRSTHDR(&msg)\<close> is not null.
\<close>

definition received_descriptor :: "build \<Rightarrow> descriptor \<Rightarrow> msghdr \<Rightarrow> failure + descriptor" where
  "received_descriptor b result msg =
     (case (if CMSG_FIRSTHDR b msg then msg_control msg else None) of
        None \<Rightarrow> Inr result
      | Some cmsg \<Rightarrow>
          if cmsg_len cmsg = CMSG_LEN b (sizeof_int b) then
            (if cmsg_level cmsg \<noteq> SOL_SOCKET b then Inl (Logic_error ''invalid cmsg_level'')
             else if cmsg_type cmsg \<noteq> SCM_RIGHTS b then Inl (Logic_error ''invalid cmsg_type'')
             else Inr (assign result (cmsg_data cmsg)))
          else Inr result)"

text \<open>
  The message of lines 234 to 246, whose two buffers are not initialised, and the flags
  of lines 248 to 251.
\<close>

definition recv_descriptor_msg :: "build \<Rightarrow> msghdr" where
  "recv_descriptor_msg b =
     (let iov = \<lparr>iov_base = None, iov_len = 1\<rparr>
      in \<lparr>msg_namelen = 0, msg_iov = [iov], msg_iovlen = 1, msg_control = None,
          msg_controllen = CMSG_SPACE b (sizeof_int b), msg_flags = 0\<rparr>)"

definition recv_descriptor_flags :: "build \<Rightarrow> int" where
  "recv_descriptor_flags b = (case MSG_CMSG_CLOEXEC b of None \<Rightarrow> 0 | Some c \<Rightarrow> 0 OR c)"

text \<open>\<^verbatim>\<open>local_socket::recv_descriptor()\<close>, lines 219 to 284.\<close>

definition recv_descriptor ::
  "build \<Rightarrow> descriptor \<Rightarrow> world \<Rightarrow> (failure + descriptor) option \<times> world" where
  "recv_descriptor b this w =
     (let result = Empty;
          msg = recv_descriptor_msg b;
          flags = recv_descriptor_flags b
      in case recvmsg_retry b (fd b this) msg flags (pending w) (issued w) of
           (None, w1) \<Rightarrow> (None, w1)
         | (Some (Inl e), w1) \<Rightarrow> (Throws e, w1)
         | (Some (Inr msg'), w1) \<Rightarrow>
             (case received_descriptor b result msg' of
                Inl e \<Rightarrow> (Throws e, w1)
              | Inr result' \<Rightarrow>
                  if MSG_CMSG_CLOEXEC b = None then cloexec_true b result' w1 result'
                  else (Returns result', w1)))"

subsection \<open>A build and the replies of the kernel\<close>

text \<open>
  Modelled from the spec: \<^verbatim>\<open>descriptor::cloexec(bool)\<close>, of \<^verbatim>\<open>descriptor.cc\<close>, which
  is not among the sources. An operation on a descriptor in the empty state surfaces
  bad-descriptor (section 8 of the spec); on an owned handle the flag is set or cleared
  (sections 3 and 6), a step of which the spec gives neither the kernel calls nor a
  failure, and that returns here.
\<close>

definition spec_cloexec :: "descriptor \<Rightarrow> bool \<Rightarrow> world \<Rightarrow> (failure + unit) option \<times> world" where
  "spec_cloexec d state w =
     (case d of Empty \<Rightarrow> (Throws Bad_descriptor, w) | Owns h \<Rightarrow> (Returns (), w))"

text \<open>
  The values of Linux on x86-64 with glibc, where the three macros of the conditional
  compilation are defined and \<^verbatim>\<open>descriptor::cloexec\<close> is never called.
\<close>

definition linux_x86_64 :: build where
  "linux_x86_64 =
     \<lparr>AF_LOCAL = 1, SOCK_STREAM = 1, SOCK_CLOEXEC = Some 524288, HAVE_ACCEPT4 = True,
      MSG_CMSG_CLOEXEC = Some 1073741824, NDEBUG = False, SOL_SOCKET = 1, SCM_RIGHTS = 1,
      EINTR = 4, EMFILE = 24, ENFILE = 23, ENOBUFS = 105, ENOMEM = 12, EBADF = 9,
      sizeof_int = 4, sizeof_cmsghdr = 16, sizeof_sun_family = 2, sizeof_sun_path = 108,
      CMSG_LEN = (\<lambda>n. 16 + n), CMSG_SPACE = (\<lambda>n. 16 + 8 * ((n + 7) div 8)),
      empty_fd = - 1, cloexec = spec_cloexec\<rparr>"

text \<open>
  The same platform with headers that define none of \<^verbatim>\<open>SOCK_CLOEXEC\<close>,
  \<^verbatim>\<open>HAVE_ACCEPT4\<close> and \<^verbatim>\<open>MSG_CMSG_CLOEXEC\<close>: the file is compiled with its calls of
  \<^verbatim>\<open>descriptor::cloexec\<close>.
\<close>

definition legacy_build :: build where
  "legacy_build =
     linux_x86_64\<lparr>SOCK_CLOEXEC := None, HAVE_ACCEPT4 := False, MSG_CMSG_CLOEXEC := None\<rparr>"

text \<open>A call that succeeds with value \<open>v\<close>, and one that fails with \<^verbatim>\<open>errno\<close> \<open>e\<close>.\<close>

definition no_cmsg :: cmsghdr where
  "no_cmsg = \<lparr>cmsg_len = 0, cmsg_level = 0, cmsg_type = 0, cmsg_data = 0\<rparr>"

definition succeeds :: "int \<Rightarrow> reply" where
  "succeeds v = \<lparr>retval = v, errno = 0, r_fds = (0, 0), r_control = no_cmsg, r_controllen = 0\<rparr>"

definition fails :: "int \<Rightarrow> reply" where
  "fails e = \<lparr>retval = - 1, errno = e, r_fds = (0, 0), r_control = no_cmsg, r_controllen = 0\<rparr>"

text \<open>The kernel reports that the call was interrupted by a signal.\<close>

definition interrupted :: "build \<Rightarrow> reply \<Rightarrow> bool" where
  "interrupted b r = (retval r = - 1 \<and> errno r = EINTR b)"

section \<open>The retry loops\<close>

text \<open>
  A loop that meets interruptions issues its call once more for each of them, with the
  same arguments, and goes on with the replies that follow.
\<close>

lemma bind_retry_interrupted:
  "\<forall>r\<in>set es. interrupted b r \<Longrightarrow>
   bind_retry b sockfd addr addrlen (es @ rs) tr =
   bind_retry b sockfd addr addrlen rs
     (tr @ replicate (length es) (SYS_bind sockfd addr addrlen))"
  by (induction es arbitrary: tr) (simp_all add: interrupted_def replicate_app_Cons_same)

lemma connect_retry_interrupted:
  "\<forall>r\<in>set es. interrupted b r \<Longrightarrow>
   connect_retry b sockfd addr addrlen (es @ rs) tr =
   connect_retry b sockfd addr addrlen rs
     (tr @ replicate (length es) (SYS_connect sockfd addr addrlen))"
  by (induction es arbitrary: tr) (simp_all add: interrupted_def replicate_app_Cons_same)

lemma accept_retry_interrupted:
  "\<forall>r\<in>set es. interrupted b r \<Longrightarrow>
   accept_retry b sockfd (es @ rs) tr =
   accept_retry b sockfd rs (tr @ replicate (length es) (accept_call b sockfd))"
  by (induction es arbitrary: tr) (simp_all add: interrupted_def replicate_app_Cons_same)

lemma sendmsg_retry_interrupted:
  "\<forall>r\<in>set es. interrupted b r \<Longrightarrow>
   sendmsg_retry b sockfd msg flags (es @ rs) tr =
   sendmsg_retry b sockfd msg flags rs
     (tr @ replicate (length es) (SYS_sendmsg sockfd msg flags))"
  by (induction es arbitrary: tr) (simp_all add: interrupted_def replicate_app_Cons_same)

lemma recvmsg_retry_interrupted:
  "\<forall>r\<in>set es. interrupted b r \<Longrightarrow>
   recvmsg_retry b sockfd msg flags (es @ rs) tr =
   recvmsg_retry b sockfd msg flags rs
     (tr @ replicate (length es) (SYS_recvmsg sockfd msg flags))"
  by (induction es arbitrary: tr) (simp_all add: interrupted_def replicate_app_Cons_same)

text \<open>Whatever the replies, the send loop issues one and the same call, at least once.\<close>

lemma sendmsg_retry_issued:
  "\<exists>n. issued (snd (sendmsg_retry b sockfd msg flags rs tr)) =
       tr @ replicate (Suc n) (SYS_sendmsg sockfd msg flags)"
proof (induction rs arbitrary: tr)
  case Nil
  show ?case by (rule exI [of _ 0]) simp
next
  case (Cons r rs)
  show ?case
  proof (cases "interrupted b r")
    case True
    from Cons.IH [of "tr @ [SYS_sendmsg sockfd msg flags]"] obtain n where
      "issued (snd (sendmsg_retry b sockfd msg flags rs (tr @ [SYS_sendmsg sockfd msg flags]))) =
       (tr @ [SYS_sendmsg sockfd msg flags]) @ replicate (Suc n) (SYS_sendmsg sockfd msg flags)"
      by blast
    with True show ?thesis
      by (intro exI [of _ "Suc n"]) (simp add: interrupted_def)
  next
    case False
    then show ?thesis
      by (intro exI [of _ 0]) (auto simp: interrupted_def)
  qed
qed

section \<open>The message of \<^verbatim>\<open>send_descriptor\<close>\<close>

text \<open>
  Claim C1. In a build that passes the \<^verbatim>\<open>static_assert\<close>s, \<^verbatim>\<open>send_descriptor\<close>
  builds one message \<open>m\<close>, and every call it issues is \<^verbatim>\<open>sendmsg\<close> on the socket's
  handle with \<open>m\<close> and no flags, at least once. The message has one buffer of one byte
  (\<open>msg_iovlen = 1\<close>, \<open>iov_len = 1\<close>), and a control buffer of
  \<^verbatim>\<open>CMSG_SPACE(sizeof(int))\<close> bytes, the room of one record of one \<^verbatim>\<open>int\<close>, that
  holds one record: its length is \<^verbatim>\<open>CMSG_LEN(sizeof(int))\<close>, a header and one
  \<^verbatim>\<open>int\<close>, its level is \<^verbatim>\<open>SOL_SOCKET\<close>, its type is \<^verbatim>\<open>SCM_RIGHTS\<close>, and the
  \<^verbatim>\<open>int\<close> is the current handle value of the descriptor being sent.
\<close>

theorem send_descriptor_message:
  assumes "static_asserts b"
  shows "\<exists>m c n. send_descriptor_msg b d = Inr m \<and>
     issued (snd (send_descriptor b s d w)) =
       issued w @ replicate (Suc n) (SYS_sendmsg (fd b s) m 0) \<and>
     msg_iovlen m = 1 \<and> map iov_len (msg_iov m) = [1] \<and>
     map iov_base (msg_iov m) = [Some [0]] \<and>
     CMSG_FIRSTHDR b m \<and> msg_controllen m = CMSG_SPACE b (sizeof_int b) \<and>
     msg_control m = Some c \<and> cmsg_len c = CMSG_LEN b (sizeof_int b) \<and>
     cmsg_level c = SOL_SOCKET b \<and> cmsg_type c = SCM_RIGHTS b \<and> cmsg_data c = fd b d"
proof -
  define c where "c = \<lparr>cmsg_len = CMSG_LEN b (sizeof_int b), cmsg_level = SOL_SOCKET b,
      cmsg_type = SCM_RIGHTS b, cmsg_data = fd b d\<rparr>"
  define m where "m = \<lparr>msg_namelen = 0, msg_iov = [\<lparr>iov_base = Some [0], iov_len = 1\<rparr>],
      msg_iovlen = 1, msg_control = Some c, msg_controllen = CMSG_SPACE b (sizeof_int b),
      msg_flags = 0\<rparr>"
  from assms have first: "CMSG_FIRSTHDR b m"
    by (simp add: CMSG_FIRSTHDR_def static_asserts_def m_def)
  from assms have built: "send_descriptor_msg b d = Inr m"
    by (simp add: send_descriptor_msg_def CMSG_FIRSTHDR_def static_asserts_def m_def c_def)
  obtain n where calls: "issued (snd (sendmsg_retry b (fd b s) m 0 (pending w) (issued w))) =
       issued w @ replicate (Suc n) (SYS_sendmsg (fd b s) m 0)"
    using sendmsg_retry_issued by blast
  from built calls have sent: "issued (snd (send_descriptor b s d w)) =
       issued w @ replicate (Suc n) (SYS_sendmsg (fd b s) m 0)"
    by (simp add: send_descriptor_def)
  have fields: "msg_iovlen m = 1 \<and> map iov_len (msg_iov m) = [1] \<and>
     map iov_base (msg_iov m) = [Some [0]] \<and>
     msg_controllen m = CMSG_SPACE b (sizeof_int b) \<and> msg_control m = Some c"
    by (simp add: m_def)
  have header: "cmsg_len c = CMSG_LEN b (sizeof_int b) \<and> cmsg_level c = SOL_SOCKET b \<and>
     cmsg_type c = SCM_RIGHTS b \<and> cmsg_data c = fd b d"
    by (simp add: c_def)
  from built sent first fields header show ?thesis
    by (intro exI [of _ m] exI [of _ c] exI [of _ n]) simp
qed

theorem send_descriptor_message_witness:
  "static_asserts linux_x86_64 \<and>
   (\<exists>m c n. send_descriptor_msg linux_x86_64 (Owns 7) = Inr m \<and>
     issued (snd (send_descriptor linux_x86_64 (Owns 3) (Owns 7)
        \<lparr>pending = [fails 4, succeeds 1], issued = []\<rparr>)) =
       replicate (Suc n) (SYS_sendmsg 3 m 0) \<and>
     msg_iovlen m = 1 \<and> map iov_len (msg_iov m) = [1] \<and>
     map iov_base (msg_iov m) = [Some [0]] \<and>
     CMSG_FIRSTHDR linux_x86_64 m \<and> msg_controllen m = 24 \<and>
     msg_control m = Some c \<and> cmsg_len c = 20 \<and>
     cmsg_level c = 1 \<and> cmsg_type c = 1 \<and> cmsg_data c = 7)"
proof -
  have sa: "static_asserts linux_x86_64"
    by (simp add: static_asserts_def linux_x86_64_def)
  show ?thesis
    using sa send_descriptor_message [OF sa, of "Owns 7" "Owns 3"
        "\<lparr>pending = [fails 4, succeeds 1], issued = []\<rparr>"]
    by (simp add: linux_x86_64_def fd_def)
qed

section \<open>A receive that succeeds\<close>

text \<open>
  After interruptions and a reply that is not a failure, \<^verbatim>\<open>recv_descriptor\<close> is at
  line 268 with the message the kernel has left.
\<close>

lemma recvmsg_retry_success:
  "\<forall>e\<in>set es. interrupted b e \<Longrightarrow> retval r \<noteq> - 1 \<Longrightarrow>
   recvmsg_retry b sockfd msg flags (es @ r # rs) tr =
   (Returns (msg\<lparr>msg_control := Some (r_control r), msg_controllen := r_controllen r\<rparr>),
    \<lparr>pending = rs, issued = tr @ replicate (Suc (length es)) (SYS_recvmsg sockfd msg flags)\<rparr>)"
  by (simp add: recvmsg_retry_interrupted replicate_append_same)

lemma recv_descriptor_received:
  assumes "\<forall>e\<in>set es. interrupted b e" and "retval r \<noteq> - 1" and "pending w = es @ r # rs"
  shows "recv_descriptor b s w =
     (case received_descriptor b Empty
        ((recv_descriptor_msg b)
           \<lparr>msg_control := Some (r_control r), msg_controllen := r_controllen r\<rparr>) of
        Inl e \<Rightarrow>
          (Throws e,
           \<lparr>pending = rs, issued = issued w @ replicate (Suc (length es))
              (SYS_recvmsg (fd b s) (recv_descriptor_msg b) (recv_descriptor_flags b))\<rparr>)
      | Inr d \<Rightarrow>
          if MSG_CMSG_CLOEXEC b = None
          then cloexec_true b d
            \<lparr>pending = rs, issued = issued w @ replicate (Suc (length es))
               (SYS_recvmsg (fd b s) (recv_descriptor_msg b) (recv_descriptor_flags b))\<rparr> d
          else (Returns d,
            \<lparr>pending = rs, issued = issued w @ replicate (Suc (length es))
               (SYS_recvmsg (fd b s) (recv_descriptor_msg b) (recv_descriptor_flags b))\<rparr>))"
  using assms
  by (auto simp: recv_descriptor_def Let_def recvmsg_retry_success split: sum.split)

lemma received_descriptor_none:
  "r_controllen r < sizeof_cmsghdr b \<or> cmsg_len (r_control r) \<noteq> CMSG_LEN b (sizeof_int b) \<Longrightarrow>
   received_descriptor b result
     (msg\<lparr>msg_control := Some (r_control r), msg_controllen := r_controllen r\<rparr>) = Inr result"
  by (auto simp: received_descriptor_def CMSG_FIRSTHDR_def)

section \<open>What \<^verbatim>\<open>recv_descriptor\<close> returns\<close>

text \<open>
  A receive that succeeds with no ancillary record, or with a first record whose length
  is not that of one handle, leaves the result empty at line 277. A build that defines
  \<^verbatim>\<open>MSG_CMSG_CLOEXEC\<close> returns it; a build that does not calls
  \<^verbatim>\<open>result.cloexec(true)\<close> on it first, at line 280, whether or not a descriptor was
  received.
\<close>

lemma recv_descriptor_without_record:
  assumes "\<forall>e\<in>set es. interrupted b e"
    and "retval r \<noteq> - 1"
    and "pending w = es @ r # rs"
    and "r_controllen r < sizeof_cmsghdr b \<or> cmsg_len (r_control r) \<noteq> CMSG_LEN b (sizeof_int b)"
  shows "recv_descriptor b s w =
     (if MSG_CMSG_CLOEXEC b = None
      then cloexec_true b Empty
        \<lparr>pending = rs, issued = issued w @ replicate (Suc (length es))
           (SYS_recvmsg (fd b s) (recv_descriptor_msg b) (recv_descriptor_flags b))\<rparr> Empty
      else (Returns Empty,
        \<lparr>pending = rs, issued = issued w @ replicate (Suc (length es))
           (SYS_recvmsg (fd b s) (recv_descriptor_msg b) (recv_descriptor_flags b))\<rparr>))"
  by (simp add: recv_descriptor_received [OF assms(1,2,3)] received_descriptor_none [OF assms(4)])

text \<open>
  The same holds at the end of the stream, where \<^verbatim>\<open>recvmsg\<close> returns 0: in every
  build the whole result is the one of a receive that reads its byte and has no
  ancillary record either.
\<close>

lemma recv_descriptor_end_of_stream_same:
  assumes "\<forall>e\<in>set es. interrupted b e"
    and "retval r0 = 0" and "r_controllen r0 < sizeof_cmsghdr b"
    and "0 < retval r1" and "r_controllen r1 < sizeof_cmsghdr b"
  shows "recv_descriptor b s \<lparr>pending = es @ r0 # rs, issued = tr\<rparr> =
    recv_descriptor b s \<lparr>pending = es @ r1 # rs, issued = tr\<rparr>"
proof -
  from assms(2) have ok0: "retval r0 \<noteq> - 1" by simp
  from assms(4) have ok1: "retval r1 \<noteq> - 1" by simp
  have p0: "pending \<lparr>pending = es @ r0 # rs, issued = tr\<rparr> = es @ r0 # rs" by simp
  have p1: "pending \<lparr>pending = es @ r1 # rs, issued = tr\<rparr> = es @ r1 # rs" by simp
  from assms(3) have n0: "r_controllen r0 < sizeof_cmsghdr b \<or>
      cmsg_len (r_control r0) \<noteq> CMSG_LEN b (sizeof_int b)" by simp
  from assms(5) have n1: "r_controllen r1 < sizeof_cmsghdr b \<or>
      cmsg_len (r_control r1) \<noteq> CMSG_LEN b (sizeof_int b)" by simp
  show ?thesis
    by (simp add: recv_descriptor_without_record [OF assms(1) ok0 p0 n0]
        recv_descriptor_without_record [OF assms(1) ok1 p1 n1])
qed

text \<open>
  Claim C2. After a successful receive, if no ancillary record is present, or the first
  record's declared length is not that of one handle, \<^verbatim>\<open>recv_descriptor\<close> is to return
  the empty descriptor and raise no error. The build that defines
  \<^verbatim>\<open>MSG_CMSG_CLOEXEC\<close> does so. In the build without it the call of line 280 is made
  on the empty result, surfaces bad-descriptor, and \<^verbatim>\<open>recv_descriptor\<close> throws
  \<^verbatim>\<open>posix::bad_descriptor\<close>: for a message of one byte with no ancillary record, and
  for one whose record has another length.
\<close>

theorem recv_descriptor_no_record_throws:
  "fst (recv_descriptor legacy_build (Owns 3) \<lparr>pending = [succeeds 1], issued = []\<rparr>) =
     Throws Bad_descriptor \<and>
   fst (recv_descriptor legacy_build (Owns 3)
          \<lparr>pending = [(succeeds 1)\<lparr>r_control := \<lparr>cmsg_len = 24, cmsg_level = 1, cmsg_type = 1,
               cmsg_data = 5\<rparr>, r_controllen := 24\<rparr>], issued = []\<rparr>) = Throws Bad_descriptor \<and>
   fst (recv_descriptor linux_x86_64 (Owns 3) \<lparr>pending = [succeeds 1], issued = []\<rparr>) =
     Returns Empty"
  by (simp add: recv_descriptor_def recv_descriptor_msg_def recv_descriptor_flags_def
      received_descriptor_def CMSG_FIRSTHDR_def cloexec_true_def spec_cloexec_def
      legacy_build_def linux_x86_64_def succeeds_def no_cmsg_def fd_def Let_def)

text \<open>
  Claim C3. The receive succeeds with a record of the expected length
  \<^verbatim>\<open>CMSG_LEN(sizeof(int))\<close> whose level is not \<^verbatim>\<open>SOL_SOCKET\<close> or whose type is not
  \<^verbatim>\<open>SCM_RIGHTS\<close>. Then \<^verbatim>\<open>recv_descriptor\<close> throws \<^verbatim>\<open>std::logic_error\<close>, with
  the message for the level when the level is wrong and for the type otherwise: it
  throws none of \<^verbatim>\<open>posix::error\<close>, \<^verbatim>\<open>posix::fatal_error\<close> and
  \<^verbatim>\<open>posix::bad_descriptor\<close>, and it returns no descriptor.
\<close>

theorem recv_descriptor_invalid_record:
  assumes "\<forall>e\<in>set es. interrupted b e"
    and "retval r \<noteq> - 1"
    and "pending w = es @ r # rs"
    and "sizeof_cmsghdr b \<le> r_controllen r"
    and "cmsg_len (r_control r) = CMSG_LEN b (sizeof_int b)"
    and "cmsg_level (r_control r) \<noteq> SOL_SOCKET b \<or> cmsg_type (r_control r) \<noteq> SCM_RIGHTS b"
  shows "fst (recv_descriptor b s w) =
      Throws (Logic_error (if cmsg_level (r_control r) \<noteq> SOL_SOCKET b
                           then ''invalid cmsg_level'' else ''invalid cmsg_type'')) \<and>
    (\<forall>e. fst (recv_descriptor b s w) \<noteq> Throws (Error e)) \<and>
    (\<forall>e. fst (recv_descriptor b s w) \<noteq> Throws (Fatal_error e)) \<and>
    fst (recv_descriptor b s w) \<noteq> Throws Bad_descriptor \<and>
    (\<forall>d. fst (recv_descriptor b s w) \<noteq> Returns d)"
  using assms(4,5,6)
  by (auto simp: recv_descriptor_received [OF assms(1,2,3)] received_descriptor_def CMSG_FIRSTHDR_def)

theorem recv_descriptor_invalid_record_witness:
  "fst (recv_descriptor linux_x86_64 (Owns 3)
          \<lparr>pending = [fails 4, (succeeds 1)\<lparr>r_control := \<lparr>cmsg_len = 20, cmsg_level = 1,
             cmsg_type = 2, cmsg_data = 5\<rparr>, r_controllen := 20\<rparr>], issued = []\<rparr>) =
     Throws (Logic_error ''invalid cmsg_type'') \<and>
   fst (recv_descriptor linux_x86_64 (Owns 3)
          \<lparr>pending = [(succeeds 1)\<lparr>r_control := \<lparr>cmsg_len = 20, cmsg_level = 41,
             cmsg_type = 1, cmsg_data = 5\<rparr>, r_controllen := 20\<rparr>], issued = []\<rparr>) =
     Throws (Logic_error ''invalid cmsg_level'')"
  using recv_descriptor_invalid_record [where b = linux_x86_64 and es = "[fails 4]"
      and r = "(succeeds 1)\<lparr>r_control := \<lparr>cmsg_len = 20, cmsg_level = 1,
             cmsg_type = 2, cmsg_data = 5\<rparr>, r_controllen := 20\<rparr>" and rs = "[]" and s = "Owns 3"
      and w = "\<lparr>pending = [fails 4, (succeeds 1)\<lparr>r_control := \<lparr>cmsg_len = 20, cmsg_level = 1,
             cmsg_type = 2, cmsg_data = 5\<rparr>, r_controllen := 20\<rparr>], issued = []\<rparr>"]
    recv_descriptor_invalid_record [where b = linux_x86_64 and es = "[]"
      and r = "(succeeds 1)\<lparr>r_control := \<lparr>cmsg_len = 20, cmsg_level = 41,
             cmsg_type = 1, cmsg_data = 5\<rparr>, r_controllen := 20\<rparr>" and rs = "[]" and s = "Owns 3"
      and w = "\<lparr>pending = [(succeeds 1)\<lparr>r_control := \<lparr>cmsg_len = 20, cmsg_level = 41,
             cmsg_type = 1, cmsg_data = 5\<rparr>, r_controllen := 20\<rparr>], issued = []\<rparr>"]
  by (simp add: linux_x86_64_def interrupted_def fails_def succeeds_def)

text \<open>
  Claim C10. When \<^verbatim>\<open>recvmsg\<close> returns 0 with no ancillary record (the peer has closed
  the connection), \<^verbatim>\<open>recv_descriptor\<close> is to return the empty descriptor and raise no
  error, as for a receive of one byte with no descriptor. The build that defines
  \<^verbatim>\<open>MSG_CMSG_CLOEXEC\<close> does so. In the build without it the result is still the one
  of a receive of one byte with no descriptor, calls and replies included, but it is
  the exception \<^verbatim>\<open>posix::bad_descriptor\<close> that line 280 raises on the empty result.
\<close>

theorem recv_descriptor_end_of_stream_throws:
  "fst (recv_descriptor legacy_build (Owns 3) \<lparr>pending = [succeeds 0], issued = []\<rparr>) =
     Throws Bad_descriptor \<and>
   recv_descriptor legacy_build (Owns 3) \<lparr>pending = [succeeds 0], issued = []\<rparr> =
   recv_descriptor legacy_build (Owns 3) \<lparr>pending = [succeeds 1], issued = []\<rparr> \<and>
   fst (recv_descriptor linux_x86_64 (Owns 3) \<lparr>pending = [succeeds 0], issued = []\<rparr>) =
     Returns Empty"
  by (simp add: recv_descriptor_def recv_descriptor_msg_def recv_descriptor_flags_def
      received_descriptor_def CMSG_FIRSTHDR_def cloexec_true_def spec_cloexec_def
      legacy_build_def linux_x86_64_def succeeds_def no_cmsg_def fd_def Let_def)

section \<open>Fatal and ordinary failures\<close>

text \<open>Once its constructor has returned, \<^verbatim>\<open>accept\<close> is at the label \<^verbatim>\<open>retry\<close>.\<close>

lemma local_socket_accept_constructed:
  assumes "local_socket_new b w = (Returns connection, w1)"
  shows "local_socket_accept b this w =
     (case accept_retry b (fd b this) (pending w1) (issued w1) of
        (None, w2) \<Rightarrow> (None, w2)
      | (Some (Inl e), w2) \<Rightarrow> (Throws e, w2)
      | (Some (Inr connfd), w2) \<Rightarrow>
          if HAVE_ACCEPT4 b \<and> SOCK_CLOEXEC b \<noteq> None then (Returns (Owns connfd), w2)
          else cloexec_true b (Owns connfd) w2 (Owns connfd))"
  using assms
  by (simp add: local_socket_accept_def assign_def Let_def split: prod.split option.split sum.split)

text \<open>
  Claim C5. The kernel call fails (it returns -1) with the code \<open>errno r\<close>. The
  constructor throws \<^verbatim>\<open>posix::fatal_error\<close> with that code when it is one of
  \<^verbatim>\<open>EMFILE\<close>, \<^verbatim>\<open>ENFILE\<close>, \<^verbatim>\<open>ENOBUFS\<close>, \<^verbatim>\<open>ENOMEM\<close>, and \<^verbatim>\<open>posix::error\<close>
  with that code for every other code. \<^verbatim>\<open>accept\<close>, whose constructor has returned and
  whose call fails, after any number of interruptions, with a code other than
  \<^verbatim>\<open>EINTR\<close>, throws \<^verbatim>\<open>posix::fatal_error\<close> with the code for the same four codes,
  \<^verbatim>\<open>posix::bad_descriptor\<close> for \<^verbatim>\<open>EBADF\<close>, and \<^verbatim>\<open>posix::error\<close> with the code
  for every other code.
\<close>

theorem creation_and_accept_classification:
  assumes "retval r = - 1"
  shows "(pending w = r # rs \<longrightarrow>
      fst (local_socket_new b w) =
        (if errno r \<in> {EMFILE b, ENFILE b, ENOBUFS b, ENOMEM b}
         then Throws (Fatal_error (errno r)) else Throws (Error (errno r)))) \<and>
    (local_socket_new b w = (Returns connection, w1) \<and> (\<forall>e\<in>set es. interrupted b e) \<and>
     pending w1 = es @ r # rs \<and> errno r \<noteq> EINTR b \<longrightarrow>
      fst (local_socket_accept b this w) =
        (if errno r \<in> {EMFILE b, ENFILE b, ENOBUFS b, ENOMEM b}
         then Throws (Fatal_error (errno r))
         else if errno r = EBADF b then Throws Bad_descriptor
         else Throws (Error (errno r))))"
proof (intro conjI impI)
  assume "pending w = r # rs"
  with assms show "fst (local_socket_new b w) =
        (if errno r \<in> {EMFILE b, ENFILE b, ENOBUFS b, ENOMEM b}
         then Throws (Fatal_error (errno r)) else Throws (Error (errno r)))"
    by (simp add: local_socket_new_def Let_def)
next
  assume a: "local_socket_new b w = (Returns connection, w1) \<and> (\<forall>e\<in>set es. interrupted b e) \<and>
     pending w1 = es @ r # rs \<and> errno r \<noteq> EINTR b"
  then have ctor: "local_socket_new b w = (Returns connection, w1)"
    and es: "\<forall>e\<in>set es. interrupted b e" and p: "pending w1 = es @ r # rs"
    and e: "errno r \<noteq> EINTR b"
    by simp_all
  from assms e show "fst (local_socket_accept b this w) =
        (if errno r \<in> {EMFILE b, ENFILE b, ENOBUFS b, ENOMEM b}
         then Throws (Fatal_error (errno r))
         else if errno r = EBADF b then Throws Bad_descriptor
         else Throws (Error (errno r)))"
    by (simp add: local_socket_accept_constructed [OF ctor] p accept_retry_interrupted [OF es])
qed

theorem creation_and_accept_classification_witness:
  "fst (local_socket_new linux_x86_64 \<lparr>pending = [fails 24], issued = []\<rparr>) =
     Throws (Fatal_error 24) \<and>
   fst (local_socket_new linux_x86_64 \<lparr>pending = [fails 22], issued = []\<rparr>) =
     Throws (Error 22) \<and>
   fst (local_socket_accept linux_x86_64 (Owns 3)
          \<lparr>pending = [succeeds 5, fails 4, fails 105], issued = []\<rparr>) =
     Throws (Fatal_error 105) \<and>
   fst (local_socket_accept linux_x86_64 (Owns 3)
          \<lparr>pending = [succeeds 5, fails 9], issued = []\<rparr>) = Throws Bad_descriptor \<and>
   fst (local_socket_accept linux_x86_64 (Owns 3)
          \<lparr>pending = [succeeds 5, fails 22], issued = []\<rparr>) = Throws (Error 22)"
  using creation_and_accept_classification [where b = linux_x86_64 and r = "fails 24"
      and w = "\<lparr>pending = [fails 24], issued = []\<rparr>" and rs = "[]" and es = "[]"]
    creation_and_accept_classification [where b = linux_x86_64 and r = "fails 22"
      and w = "\<lparr>pending = [fails 22], issued = []\<rparr>" and rs = "[]" and es = "[]"]
    creation_and_accept_classification [where b = linux_x86_64 and r = "fails 105"
      and w = "\<lparr>pending = [succeeds 5, fails 4, fails 105], issued = []\<rparr>"
      and connection = "Owns 5" and rs = "[]" and es = "[fails 4]" and this = "Owns 3"
      and ?w1.0 = "\<lparr>pending = [fails 4, fails 105], issued = [SYS_socket 1 524289 0]\<rparr>"]
    creation_and_accept_classification [where b = linux_x86_64 and r = "fails 9"
      and w = "\<lparr>pending = [succeeds 5, fails 9], issued = []\<rparr>"
      and connection = "Owns 5" and rs = "[]" and es = "[]" and this = "Owns 3"
      and ?w1.0 = "\<lparr>pending = [fails 9], issued = [SYS_socket 1 524289 0]\<rparr>"]
    creation_and_accept_classification [where b = linux_x86_64 and r = "fails 22"
      and w = "\<lparr>pending = [succeeds 5, fails 22], issued = []\<rparr>"
      and connection = "Owns 5" and rs = "[]" and es = "[]" and this = "Owns 3"
      and ?w1.0 = "\<lparr>pending = [fails 22], issued = [SYS_socket 1 524289 0]\<rparr>"]
  by (simp add: linux_x86_64_def fails_def succeeds_def interrupted_def local_socket_new_def
      assign_def Let_def)

text \<open>
  Claim C6, as amended. \<^verbatim>\<open>socketpair\<close> fails with the code \<open>errno r\<close>. \<^verbatim>\<open>pair\<close>
  throws \<^verbatim>\<open>posix::fatal_error\<close> with that code exactly when it is one of \<^verbatim>\<open>EMFILE\<close>,
  \<^verbatim>\<open>ENFILE\<close>, \<^verbatim>\<open>ENOMEM\<close>, and \<^verbatim>\<open>posix::error\<close> with that code for every other
  code. It throws what the constructor throws on the same failure, for every code but
  \<^verbatim>\<open>ENOBUFS\<close> (no buffer space available in kernel): that code, the one the fatal
  set of \<^verbatim>\<open>pair\<close> lacks, is an ordinary error of \<^verbatim>\<open>pair\<close> and a fatal error of the
  constructor.
\<close>

theorem pair_classification:
  assumes "pending w = r # rs" and "retval r = - 1"
  shows "fst (local_socket_pair b w) =
      (if errno r \<in> {EMFILE b, ENFILE b, ENOMEM b}
       then Throws (Fatal_error (errno r)) else Throws (Error (errno r))) \<and>
    (errno r \<noteq> ENOBUFS b \<longrightarrow>
      (\<forall>e. fst (local_socket_pair b w) = Throws e \<longleftrightarrow> fst (local_socket_new b w) = Throws e)) \<and>
    (errno r = ENOBUFS b \<and> ENOBUFS b \<notin> {EMFILE b, ENFILE b, ENOMEM b} \<longrightarrow>
      fst (local_socket_pair b w) = Throws (Error (ENOBUFS b)) \<and>
      fst (local_socket_new b w) = Throws (Fatal_error (ENOBUFS b)))"
  using assms by (auto simp: local_socket_pair_def local_socket_new_def Let_def)

theorem pair_classification_witness:
  "fst (local_socket_pair linux_x86_64 \<lparr>pending = [fails 12], issued = []\<rparr>) =
     Throws (Fatal_error 12) \<and>
   fst (local_socket_pair linux_x86_64 \<lparr>pending = [fails 105], issued = []\<rparr>) =
     Throws (Error 105) \<and>
   fst (local_socket_new linux_x86_64 \<lparr>pending = [fails 105], issued = []\<rparr>) =
     Throws (Fatal_error 105) \<and>
   fst (local_socket_pair linux_x86_64 \<lparr>pending = [fails 22], issued = []\<rparr>) =
     Throws (Error 22)"
  using pair_classification [where b = linux_x86_64 and r = "fails 12" and rs = "[]"
      and w = "\<lparr>pending = [fails 12], issued = []\<rparr>"]
    pair_classification [where b = linux_x86_64 and r = "fails 105" and rs = "[]"
      and w = "\<lparr>pending = [fails 105], issued = []\<rparr>"]
    pair_classification [where b = linux_x86_64 and r = "fails 22" and rs = "[]"
      and w = "\<lparr>pending = [fails 22], issued = []\<rparr>"]
  by (simp add: linux_x86_64_def fails_def)

text \<open>
  The claim as it was written has the fatal set of \<^verbatim>\<open>pair\<close> leave out a code for
  memory. It does not: \<^verbatim>\<open>ENOMEM\<close> (cannot allocate memory in kernel) is fatal in
  \<^verbatim>\<open>pair\<close> as in the constructor, and \<^verbatim>\<open>EFAULT\<close> (an invalid address, 14) is fatal in
  neither.
\<close>

theorem pair_classification_counterexample:
  "ENOMEM linux_x86_64 = 12 \<and>
   fst (local_socket_pair linux_x86_64 \<lparr>pending = [fails 12], issued = []\<rparr>) =
     Throws (Fatal_error 12) \<and>
   fst (local_socket_new linux_x86_64 \<lparr>pending = [fails 12], issued = []\<rparr>) =
     Throws (Fatal_error 12) \<and>
   fst (local_socket_pair linux_x86_64 \<lparr>pending = [fails 14], issued = []\<rparr>) =
     Throws (Error 14) \<and>
   fst (local_socket_new linux_x86_64 \<lparr>pending = [fails 14], issued = []\<rparr>) =
     Throws (Error 14)"
  by (simp add: local_socket_pair_def local_socket_new_def linux_x86_64_def fails_def Let_def)

section \<open>Bind and connect\<close>

text \<open>
  The copy of line 87 (and 116) runs past the end of \<^verbatim>\<open>addr.sun_path\<close> exactly when
  the pathname, up to its first null byte, has as many bytes as the array or more.
\<close>

lemma sockaddr_of_eq_None:
  "sockaddr_of b p = None \<longleftrightarrow> sizeof_sun_path b \<le> strlen (c_str p)"
  by (auto simp: sockaddr_of_def strcpy_def strlen_def Let_def split: option.splits if_splits)

text \<open>
  Once the constructor has returned and the assertion has passed, \<^verbatim>\<open>bind\<close> and
  \<^verbatim>\<open>connect\<close> are at the label \<^verbatim>\<open>retry\<close> with the address built from the pathname,
  when the copy stays within the array; when it does not, they are in undefined
  behaviour, with no kernel call of their own issued.
\<close>

lemma local_socket_bind_constructed:
  assumes "local_socket_new b w = (Returns socket, w1)" and "NDEBUG b \<or> p \<noteq> []"
    and "sockaddr_of b p = Some addr"
  shows "local_socket_bind b p w =
     (case bind_retry b (fd b socket) addr (addrlen_of b addr) (pending w1) (issued w1) of
        (None, w2) \<Rightarrow> (None, w2)
      | (Some (Inl e), w2) \<Rightarrow> (Throws e, w2)
      | (Some (Inr u), w2) \<Rightarrow> (Returns socket, w2))"
  using assms by (auto simp: local_socket_bind_def empty_pathname_def Let_def)

lemma local_socket_connect_constructed:
  assumes "local_socket_new b w = (Returns socket, w1)" and "NDEBUG b \<or> p \<noteq> []"
    and "sockaddr_of b p = Some addr"
  shows "local_socket_connect b p w =
     (case connect_retry b (fd b socket) addr (addrlen_of b addr) (pending w1) (issued w1) of
        (None, w2) \<Rightarrow> (None, w2)
      | (Some (Inl e), w2) \<Rightarrow> (Throws e, w2)
      | (Some (Inr u), w2) \<Rightarrow> (Returns socket, w2))"
  using assms by (auto simp: local_socket_connect_def empty_pathname_def Let_def)

lemma local_socket_bind_overrun:
  assumes "local_socket_new b w = (Returns socket, w1)" and "NDEBUG b \<or> p \<noteq> []"
    and "sockaddr_of b p = None"
  shows "local_socket_bind b p w = (Throws Undefined_behaviour, w1)"
  using assms by (auto simp: local_socket_bind_def empty_pathname_def)

lemma local_socket_connect_overrun:
  assumes "local_socket_new b w = (Returns socket, w1)" and "NDEBUG b \<or> p \<noteq> []"
    and "sockaddr_of b p = None"
  shows "local_socket_connect b p w = (Throws Undefined_behaviour, w1)"
  using assms by (auto simp: local_socket_connect_def empty_pathname_def)

lemma connect_retry_not_fatal:
  "fst (connect_retry b sockfd addr addrlen rs tr) \<noteq> Throws (Fatal_error e)"
  by (induction rs arbitrary: tr) simp_all

text \<open>
  Claim C7. The constructor has returned. \<^verbatim>\<open>connect\<close> never throws
  \<^verbatim>\<open>posix::fatal_error\<close>, whatever the kernel answers. When the pathname fits the
  address and the call of \<^verbatim>\<open>bind\<close> (of \<^verbatim>\<open>connect\<close>) fails, after any number of
  interruptions, with a code other than \<^verbatim>\<open>EINTR\<close>: \<^verbatim>\<open>bind\<close> throws
  \<^verbatim>\<open>posix::fatal_error\<close> with the code for \<^verbatim>\<open>ENOMEM\<close>, \<^verbatim>\<open>posix::bad_descriptor\<close> for
  \<^verbatim>\<open>EBADF\<close> and \<^verbatim>\<open>posix::error\<close> with the code otherwise; \<^verbatim>\<open>connect\<close> throws
  \<^verbatim>\<open>posix::bad_descriptor\<close> for \<^verbatim>\<open>EBADF\<close> and \<^verbatim>\<open>posix::error\<close> with the code for
  every other code, \<^verbatim>\<open>ENOMEM\<close> included.
\<close>

theorem bind_and_connect_classification:
  assumes "local_socket_new b w = (Returns socket, w1)" and "NDEBUG b \<or> p \<noteq> []"
  shows "(\<forall>e. fst (local_socket_connect b p w) \<noteq> Throws (Fatal_error e)) \<and>
    ((\<forall>i\<in>set es. interrupted b i) \<and> pending w1 = es @ r # rs \<and>
     retval r = - 1 \<and> errno r \<noteq> EINTR b \<and> strlen (c_str p) < sizeof_sun_path b \<longrightarrow>
       fst (local_socket_bind b p w) =
         (if errno r = ENOMEM b then Throws (Fatal_error (errno r))
          else if errno r = EBADF b then Throws Bad_descriptor
          else Throws (Error (errno r))) \<and>
       fst (local_socket_connect b p w) =
         (if errno r = EBADF b then Throws Bad_descriptor else Throws (Error (errno r))))"
proof (intro conjI impI allI)
  fix e
  show "fst (local_socket_connect b p w) \<noteq> Throws (Fatal_error e)"
  proof (cases "sockaddr_of b p")
    case None
    then show ?thesis
      by (simp add: local_socket_connect_overrun [OF assms])
  next
    case (Some addr)
    then show ?thesis
      using connect_retry_not_fatal [of b "fd b socket" addr "addrlen_of b addr"
          "pending w1" "issued w1" e]
      by (auto simp: local_socket_connect_constructed [OF assms]
          split: prod.splits option.splits sum.splits)
  qed
next
  assume a: "(\<forall>i\<in>set es. interrupted b i) \<and> pending w1 = es @ r # rs \<and>
     retval r = - 1 \<and> errno r \<noteq> EINTR b \<and> strlen (c_str p) < sizeof_sun_path b"
  then have es: "\<forall>i\<in>set es. interrupted b i" and p: "pending w1 = es @ r # rs"
    and r: "retval r = - 1" "errno r \<noteq> EINTR b"
    and fits: "strlen (c_str p) < sizeof_sun_path b"
    by simp_all
  from fits obtain addr where addr: "sockaddr_of b p = Some addr"
    using sockaddr_of_eq_None [of b p] by (cases "sockaddr_of b p") auto
  from r show "fst (local_socket_bind b p w) =
         (if errno r = ENOMEM b then Throws (Fatal_error (errno r))
          else if errno r = EBADF b then Throws Bad_descriptor
          else Throws (Error (errno r)))"
    by (simp add: local_socket_bind_constructed [OF assms addr] p bind_retry_interrupted [OF es])
  from r show "fst (local_socket_connect b p w) =
         (if errno r = EBADF b then Throws Bad_descriptor else Throws (Error (errno r)))"
    by (simp add: local_socket_connect_constructed [OF assms addr] p
        connect_retry_interrupted [OF es])
qed

theorem bind_and_connect_classification_witness:
  "fst (local_socket_bind linux_x86_64 ''/tmp/s''
          \<lparr>pending = [succeeds 5, fails 4, fails 12], issued = []\<rparr>) = Throws (Fatal_error 12) \<and>
   fst (local_socket_connect linux_x86_64 ''/tmp/s''
          \<lparr>pending = [succeeds 5, fails 4, fails 12], issued = []\<rparr>) = Throws (Error 12) \<and>
   fst (local_socket_bind linux_x86_64 ''/tmp/s''
          \<lparr>pending = [succeeds 5, fails 9], issued = []\<rparr>) = Throws Bad_descriptor \<and>
   fst (local_socket_connect linux_x86_64 ''/tmp/s''
          \<lparr>pending = [succeeds 5, fails 9], issued = []\<rparr>) = Throws Bad_descriptor \<and>
   fst (local_socket_bind linux_x86_64 ''/tmp/s''
          \<lparr>pending = [succeeds 5, fails 98], issued = []\<rparr>) = Throws (Error 98) \<and>
   fst (local_socket_connect linux_x86_64 ''/tmp/s''
          \<lparr>pending = [succeeds 5, fails 111], issued = []\<rparr>) = Throws (Error 111)"
  using bind_and_connect_classification [where b = linux_x86_64 and p = "''/tmp/s''"
      and w = "\<lparr>pending = [succeeds 5, fails 4, fails 12], issued = []\<rparr>" and socket = "Owns 5"
      and ?w1.0 = "\<lparr>pending = [fails 4, fails 12], issued = [SYS_socket 1 524289 0]\<rparr>"
      and es = "[fails 4]" and r = "fails 12" and rs = "[]"]
    bind_and_connect_classification [where b = linux_x86_64 and p = "''/tmp/s''"
      and w = "\<lparr>pending = [succeeds 5, fails 9], issued = []\<rparr>" and socket = "Owns 5"
      and ?w1.0 = "\<lparr>pending = [fails 9], issued = [SYS_socket 1 524289 0]\<rparr>"
      and es = "[]" and r = "fails 9" and rs = "[]"]
    bind_and_connect_classification [where b = linux_x86_64 and p = "''/tmp/s''"
      and w = "\<lparr>pending = [succeeds 5, fails 98], issued = []\<rparr>" and socket = "Owns 5"
      and ?w1.0 = "\<lparr>pending = [fails 98], issued = [SYS_socket 1 524289 0]\<rparr>"
      and es = "[]" and r = "fails 98" and rs = "[]"]
    bind_and_connect_classification [where b = linux_x86_64 and p = "''/tmp/s''"
      and w = "\<lparr>pending = [succeeds 5, fails 111], issued = []\<rparr>" and socket = "Owns 5"
      and ?w1.0 = "\<lparr>pending = [fails 111], issued = [SYS_socket 1 524289 0]\<rparr>"
      and es = "[]" and r = "fails 111" and rs = "[]"]
  by (simp add: linux_x86_64_def fails_def succeeds_def interrupted_def local_socket_new_def
      assign_def Let_def strlen_def c_str_def NUL_def)

text \<open>Whatever the replies, each loop issues one and the same call, at least once.\<close>

lemma bind_retry_issued:
  "\<exists>n. issued (snd (bind_retry b sockfd addr addrlen rs tr)) =
       tr @ replicate (Suc n) (SYS_bind sockfd addr addrlen)"
proof (induction rs arbitrary: tr)
  case Nil
  show ?case by (rule exI [of _ 0]) simp
next
  case (Cons r rs)
  show ?case
  proof (cases "interrupted b r")
    case True
    from Cons.IH [of "tr @ [SYS_bind sockfd addr addrlen]"] obtain n where
      "issued (snd (bind_retry b sockfd addr addrlen rs (tr @ [SYS_bind sockfd addr addrlen]))) =
       (tr @ [SYS_bind sockfd addr addrlen]) @ replicate (Suc n) (SYS_bind sockfd addr addrlen)"
      by blast
    with True show ?thesis
      by (intro exI [of _ "Suc n"]) (simp add: interrupted_def)
  next
    case False
    then show ?thesis
      by (intro exI [of _ 0]) (auto simp: interrupted_def)
  qed
qed

lemma connect_retry_issued:
  "\<exists>n. issued (snd (connect_retry b sockfd addr addrlen rs tr)) =
       tr @ replicate (Suc n) (SYS_connect sockfd addr addrlen)"
proof (induction rs arbitrary: tr)
  case Nil
  show ?case by (rule exI [of _ 0]) simp
next
  case (Cons r rs)
  show ?case
  proof (cases "interrupted b r")
    case True
    from Cons.IH [of "tr @ [SYS_connect sockfd addr addrlen]"] obtain n where
      "issued (snd (connect_retry b sockfd addr addrlen rs (tr @ [SYS_connect sockfd addr addrlen]))) =
       (tr @ [SYS_connect sockfd addr addrlen]) @
       replicate (Suc n) (SYS_connect sockfd addr addrlen)"
      by blast
    with True show ?thesis
      by (intro exI [of _ "Suc n"]) (simp add: interrupted_def)
  next
    case False
    then show ?thesis
      by (intro exI [of _ 0]) (auto simp: interrupted_def)
  qed
qed

text \<open>The address built from a pathname that has no null byte and fits the array.\<close>

lemma strlen_c_str:
  assumes "NUL \<notin> set p"
  shows "takeWhile (\<lambda>c. c \<noteq> NUL) (c_str p) = p" and "strlen (c_str p) = length p"
proof -
  from assms show "takeWhile (\<lambda>c. c \<noteq> NUL) (c_str p) = p"
    unfolding c_str_def by (induction p) auto
  then show "strlen (c_str p) = length p"
    by (simp add: strlen_def)
qed

lemma sockaddr_of_pathname:
  assumes "NUL \<notin> set p" and "length p < sizeof_sun_path b"
  shows "sockaddr_of b p = Some \<lparr>sun_family = AF_LOCAL b, sun_path = p @ [NUL]\<rparr>"
    and "addrlen_of b \<lparr>sun_family = AF_LOCAL b, sun_path = p @ [NUL]\<rparr> =
      sizeof_sun_family b + length p"
proof -
  from assms show "sockaddr_of b p = Some \<lparr>sun_family = AF_LOCAL b, sun_path = p @ [NUL]\<rparr>"
    by (simp add: sockaddr_of_def strcpy_def strlen_c_str(1) Let_def)
  from assms(1) have "strlen (p @ [NUL]) = length p"
    using strlen_c_str(2) [of p] by (simp add: c_str_def)
  then show "addrlen_of b \<lparr>sun_family = AF_LOCAL b, sun_path = p @ [NUL]\<rparr> =
      sizeof_sun_family b + length p"
    by (simp add: addrlen_of_def)
qed

text \<open>
  Claim C8. The pathname is not empty and, as the spec requires of a pathname, has no
  null byte and fits, with its terminator, the array \<^verbatim>\<open>sun_path\<close>. The address that
  \<^verbatim>\<open>bind\<close> and \<^verbatim>\<open>connect\<close> build has the family \<^verbatim>\<open>AF_LOCAL\<close> followed by the bytes
  of the pathname and a null byte, with no length before them; the address length is
  \<^verbatim>\<open>sizeof(addr.sun_family)\<close> plus the number of bytes of the pathname; and every
  kernel call that \<^verbatim>\<open>bind\<close> (\<^verbatim>\<open>connect\<close>) issues once its constructor has returned
  is \<^verbatim>\<open>::bind\<close> (\<^verbatim>\<open>::connect\<close>) on the new socket with this address and this
  length, at least once.
\<close>

theorem bind_and_connect_address:
  assumes "local_socket_new b w = (Returns socket, w1)" and "p \<noteq> []" and "NUL \<notin> set p"
    and "length p < sizeof_sun_path b"
  shows "sockaddr_of b p = Some \<lparr>sun_family = AF_LOCAL b, sun_path = p @ [NUL]\<rparr> \<and>
    addrlen_of b \<lparr>sun_family = AF_LOCAL b, sun_path = p @ [NUL]\<rparr> =
      sizeof_sun_family b + length p \<and>
    (\<exists>n. issued (snd (local_socket_bind b p w)) =
       issued w1 @ replicate (Suc n)
         (SYS_bind (fd b socket) \<lparr>sun_family = AF_LOCAL b, sun_path = p @ [NUL]\<rparr>
            (sizeof_sun_family b + length p))) \<and>
    (\<exists>n. issued (snd (local_socket_connect b p w)) =
       issued w1 @ replicate (Suc n)
         (SYS_connect (fd b socket) \<lparr>sun_family = AF_LOCAL b, sun_path = p @ [NUL]\<rparr>
            (sizeof_sun_family b + length p)))"
proof -
  let ?addr = "\<lparr>sun_family = AF_LOCAL b, sun_path = p @ [NUL]\<rparr>"
  from assms(2) have ne: "NDEBUG b \<or> p \<noteq> []" by simp
  note addr = sockaddr_of_pathname [OF assms(3,4)]
  obtain n where n: "issued (snd (bind_retry b (fd b socket) ?addr
      (addrlen_of b ?addr) (pending w1) (issued w1))) =
    issued w1 @ replicate (Suc n) (SYS_bind (fd b socket) ?addr (addrlen_of b ?addr))"
    using bind_retry_issued by blast
  obtain k where k: "issued (snd (connect_retry b (fd b socket) ?addr
      (addrlen_of b ?addr) (pending w1) (issued w1))) =
    issued w1 @ replicate (Suc k) (SYS_connect (fd b socket) ?addr (addrlen_of b ?addr))"
    using connect_retry_issued by blast
  have bind_calls: "issued (snd (local_socket_bind b p w)) =
       issued w1 @ replicate (Suc n)
         (SYS_bind (fd b socket) ?addr (sizeof_sun_family b + length p))"
    using n unfolding local_socket_bind_constructed [OF assms(1) ne addr(1)] addr(2)
    by (auto split: prod.splits option.splits sum.splits)
  have connect_calls: "issued (snd (local_socket_connect b p w)) =
       issued w1 @ replicate (Suc k)
         (SYS_connect (fd b socket) ?addr (sizeof_sun_family b + length p))"
    using k unfolding local_socket_connect_constructed [OF assms(1) ne addr(1)] addr(2)
    by (auto split: prod.splits option.splits sum.splits)
  from addr bind_calls connect_calls show ?thesis
    by blast
qed

theorem bind_and_connect_address_witness:
  "sockaddr_of linux_x86_64 ''/tmp/s'' = Some \<lparr>sun_family = 1, sun_path = ''/tmp/s'' @ [NUL]\<rparr> \<and>
   addrlen_of linux_x86_64 \<lparr>sun_family = 1, sun_path = ''/tmp/s'' @ [NUL]\<rparr> = 8 \<and>
   (\<exists>n. issued (snd (local_socket_bind linux_x86_64 ''/tmp/s''
       \<lparr>pending = [succeeds 5, fails 4, succeeds 0], issued = []\<rparr>)) =
       [SYS_socket 1 524289 0] @ replicate (Suc n)
          (SYS_bind 5 \<lparr>sun_family = 1, sun_path = ''/tmp/s'' @ [NUL]\<rparr> 8)) \<and>
   (\<exists>n. issued (snd (local_socket_connect linux_x86_64 ''/tmp/s''
       \<lparr>pending = [succeeds 5, fails 4, succeeds 0], issued = []\<rparr>)) =
       [SYS_socket 1 524289 0] @ replicate (Suc n)
          (SYS_connect 5 \<lparr>sun_family = 1, sun_path = ''/tmp/s'' @ [NUL]\<rparr> 8))"
proof -
  have ctor: "local_socket_new linux_x86_64 \<lparr>pending = [succeeds 5, fails 4, succeeds 0], issued = []\<rparr> =
      (Returns (Owns 5), \<lparr>pending = [fails 4, succeeds 0], issued = [SYS_socket 1 524289 0]\<rparr>)"
    by (simp add: local_socket_new_def linux_x86_64_def succeeds_def assign_def Let_def)
  have ne: "''/tmp/s'' \<noteq> []" by simp
  have nul: "NUL \<notin> set ''/tmp/s''" by (simp add: NUL_def)
  have fits: "length ''/tmp/s'' < sizeof_sun_path linux_x86_64"
    by (simp add: linux_x86_64_def)
  have af: "AF_LOCAL linux_x86_64 = 1"
    by (simp add: linux_x86_64_def)
  have len: "sizeof_sun_family linux_x86_64 + length ''/tmp/s'' = 8"
    by (simp add: linux_x86_64_def)
  show ?thesis
    using bind_and_connect_address [OF ctor ne nul fits]
    unfolding af len by (simp add: fd_def)
qed

text \<open>
  Claim C9. With assertions enabled, an empty pathname aborts \<^verbatim>\<open>bind\<close> and
  \<^verbatim>\<open>connect\<close> at the \<^verbatim>\<open>assert\<close>, before any kernel call. That is the only check.
  A pathname that has, up to its first null byte, as many bytes as \<^verbatim>\<open>sun_path\<close> or
  more passes the assertion and the constructor and reaches \<^verbatim>\<open>strcpy\<close> whole: no
  exception rejects it and nothing shortens it, so the copy runs past the end of the
  array. From there the behaviour of \<^verbatim>\<open>bind\<close> and \<^verbatim>\<open>connect\<close> is undefined; the
  socket has been created and the call of \<^verbatim>\<open>::bind\<close> or \<^verbatim>\<open>::connect\<close> has not been
  issued.
\<close>

theorem pathname_not_bound_checked:
  "(\<not> NDEBUG b \<longrightarrow>
      local_socket_bind b [] w = (Throws Assertion_failed, w) \<and>
      local_socket_connect b [] w = (Throws Assertion_failed, w)) \<and>
   (local_socket_new b w = (Returns socket, w1) \<and> (NDEBUG b \<or> p \<noteq> []) \<and>
    sizeof_sun_path b \<le> strlen (c_str p) \<longrightarrow>
      strcpy (sizeof_sun_path b) (c_str p) = None \<and>
      local_socket_bind b p w = (Throws Undefined_behaviour, w1) \<and>
      local_socket_connect b p w = (Throws Undefined_behaviour, w1))"
proof (intro conjI impI)
  assume "\<not> NDEBUG b"
  then show "local_socket_bind b [] w = (Throws Assertion_failed, w)"
    and "local_socket_connect b [] w = (Throws Assertion_failed, w)"
    by (simp_all add: local_socket_bind_def local_socket_connect_def empty_pathname_def)
next
  assume a: "local_socket_new b w = (Returns socket, w1) \<and> (NDEBUG b \<or> p \<noteq> []) \<and>
    sizeof_sun_path b \<le> strlen (c_str p)"
  then have ctor: "local_socket_new b w = (Returns socket, w1)" and ne: "NDEBUG b \<or> p \<noteq> []"
    and big: "sizeof_sun_path b \<le> strlen (c_str p)"
    by simp_all
  from big have none: "sockaddr_of b p = None"
    by (simp add: sockaddr_of_eq_None)
  from big show "strcpy (sizeof_sun_path b) (c_str p) = None"
    by (simp add: strcpy_def strlen_def Let_def)
  show "local_socket_bind b p w = (Throws Undefined_behaviour, w1)"
    by (rule local_socket_bind_overrun [OF ctor ne none])
  show "local_socket_connect b p w = (Throws Undefined_behaviour, w1)"
    by (rule local_socket_connect_overrun [OF ctor ne none])
qed

theorem pathname_not_bound_checked_witness:
  "local_socket_bind linux_x86_64 [] \<lparr>pending = [succeeds 5, succeeds 0], issued = []\<rparr> =
     (Throws Assertion_failed, \<lparr>pending = [succeeds 5, succeeds 0], issued = []\<rparr>) \<and>
   sizeof_sun_path linux_x86_64 = 108 \<and>
   strcpy 108 (c_str (replicate 108 (CHR ''a''))) = None \<and>
   local_socket_bind linux_x86_64 (replicate 108 (CHR ''a''))
       \<lparr>pending = [succeeds 5, succeeds 0], issued = []\<rparr> =
     (Throws Undefined_behaviour,
      \<lparr>pending = [succeeds 0], issued = [SYS_socket 1 524289 0]\<rparr>) \<and>
   local_socket_connect linux_x86_64 (replicate 108 (CHR ''a''))
       \<lparr>pending = [succeeds 5, succeeds 0], issued = []\<rparr> =
     (Throws Undefined_behaviour,
      \<lparr>pending = [succeeds 0], issued = [SYS_socket 1 524289 0]\<rparr>)"
proof -
  have ctor: "local_socket_new linux_x86_64 \<lparr>pending = [succeeds 5, succeeds 0], issued = []\<rparr> =
      (Returns (Owns 5), \<lparr>pending = [succeeds 0], issued = [SYS_socket 1 524289 0]\<rparr>)"
    by (simp add: local_socket_new_def linux_x86_64_def succeeds_def assign_def Let_def)
  have nul: "NUL \<notin> set (replicate 108 (CHR ''a''))"
    by (simp add: NUL_def)
  have hyps: "\<not> NDEBUG linux_x86_64 \<and> replicate 108 (CHR ''a'') \<noteq> [] \<and>
      sizeof_sun_path linux_x86_64 = 108 \<and>
      strlen (c_str (replicate 108 (CHR ''a''))) = 108"
    by (simp add: linux_x86_64_def strlen_c_str(2) [OF nul])
  show ?thesis
    using hyps
      pathname_not_bound_checked [where b = linux_x86_64 and p = "replicate 108 (CHR ''a'')"
        and w = "\<lparr>pending = [succeeds 5, succeeds 0], issued = []\<rparr>" and socket = "Owns 5"
        and ?w1.0 = "\<lparr>pending = [succeeds 0], issued = [SYS_socket 1 524289 0]\<rparr>"]
    by (simp add: ctor)
qed

section \<open>Interruption by a signal\<close>

text \<open>
  Claim C4. The constructor of \<^verbatim>\<open>bind\<close>, \<^verbatim>\<open>connect\<close> and \<^verbatim>\<open>accept\<close> has returned
  and left the world \<open>w1\<close>; \<^verbatim>\<open>send_descriptor\<close> and \<^verbatim>\<open>recv_descriptor\<close> start
  in any world \<open>v\<close>; for \<^verbatim>\<open>bind\<close> and \<^verbatim>\<open>connect\<close> the pathname fits the address
  \<open>addr\<close> built from it. The kernel answers the call of the operation (\<^verbatim>\<open>::bind\<close>,
  \<^verbatim>\<open>::connect\<close>, \<^verbatim>\<open>accept\<close> or \<^verbatim>\<open>accept4\<close>, \<^verbatim>\<open>sendmsg\<close>, \<^verbatim>\<open>recvmsg\<close>) with
  the interruptions \<open>es\<close>, any number of them.
  \<^item> If nothing follows them, the operation has neither returned nor thrown: it is in
    its call, which it has issued once more than it was interrupted, each time with
    the same arguments.
  \<^item> If a failure other than \<^verbatim>\<open>EINTR\<close> follows them, the operation throws at that
    reply, after the same calls, and what it throws is not an error that carries
    \<^verbatim>\<open>EINTR\<close>.
  \<^item> If a success follows them, the operation completes at that reply, after the same
    calls: \<^verbatim>\<open>bind\<close> and \<^verbatim>\<open>connect\<close> return the socket, \<^verbatim>\<open>send_descriptor\<close>
    returns, \<^verbatim>\<open>accept\<close> goes on to return the connection (through
    \<^verbatim>\<open>descriptor::cloexec\<close> in a build without \<^verbatim>\<open>accept4\<close>), and
    \<^verbatim>\<open>recv_descriptor\<close> does what it does when it meets that reply at once.
\<close>

theorem interrupted_calls_are_retried:
  assumes "\<forall>i\<in>set es. interrupted b i"
    and "local_socket_new b w = (Returns socket, w1)"
    and "NDEBUG b \<or> p \<noteq> []"
    and "send_descriptor_msg b d = Inr m"
  shows "(pending w1 = es \<and> pending v = es \<longrightarrow>
      (sockaddr_of b p = Some addr \<longrightarrow>
        local_socket_bind b p w =
          (None, \<lparr>pending = [], issued = issued w1 @ replicate (Suc (length es))
             (SYS_bind (fd b socket) addr (addrlen_of b addr))\<rparr>) \<and>
        local_socket_connect b p w =
          (None, \<lparr>pending = [], issued = issued w1 @ replicate (Suc (length es))
             (SYS_connect (fd b socket) addr (addrlen_of b addr))\<rparr>)) \<and>
      local_socket_accept b s w =
        (None, \<lparr>pending = [], issued = issued w1 @ replicate (Suc (length es))
           (accept_call b (fd b s))\<rparr>) \<and>
      send_descriptor b s d v =
        (None, \<lparr>pending = [], issued = issued v @ replicate (Suc (length es))
           (SYS_sendmsg (fd b s) m 0)\<rparr>) \<and>
      recv_descriptor b s v =
        (None, \<lparr>pending = [], issued = issued v @ replicate (Suc (length es))
           (SYS_recvmsg (fd b s) (recv_descriptor_msg b) (recv_descriptor_flags b))\<rparr>)) \<and>
    (pending w1 = es @ r # rs \<and> pending v = es @ r # rs \<and> retval r = - 1 \<and>
     errno r \<noteq> EINTR b \<longrightarrow>
      (sockaddr_of b p = Some addr \<longrightarrow>
        (\<exists>x. local_socket_bind b p w =
           (Throws x, \<lparr>pending = rs, issued = issued w1 @ replicate (Suc (length es))
              (SYS_bind (fd b socket) addr (addrlen_of b addr))\<rparr>) \<and>
           x \<noteq> Error (EINTR b) \<and> x \<noteq> Fatal_error (EINTR b)) \<and>
        (\<exists>x. local_socket_connect b p w =
           (Throws x, \<lparr>pending = rs, issued = issued w1 @ replicate (Suc (length es))
              (SYS_connect (fd b socket) addr (addrlen_of b addr))\<rparr>) \<and>
           x \<noteq> Error (EINTR b) \<and> x \<noteq> Fatal_error (EINTR b))) \<and>
      (\<exists>x. local_socket_accept b s w =
         (Throws x, \<lparr>pending = rs, issued = issued w1 @ replicate (Suc (length es))
            (accept_call b (fd b s))\<rparr>) \<and>
         x \<noteq> Error (EINTR b) \<and> x \<noteq> Fatal_error (EINTR b)) \<and>
      (\<exists>x. send_descriptor b s d v =
         (Throws x, \<lparr>pending = rs, issued = issued v @ replicate (Suc (length es))
            (SYS_sendmsg (fd b s) m 0)\<rparr>) \<and>
         x \<noteq> Error (EINTR b) \<and> x \<noteq> Fatal_error (EINTR b)) \<and>
      (\<exists>x. recv_descriptor b s v =
         (Throws x, \<lparr>pending = rs, issued = issued v @ replicate (Suc (length es))
            (SYS_recvmsg (fd b s) (recv_descriptor_msg b) (recv_descriptor_flags b))\<rparr>) \<and>
         x \<noteq> Error (EINTR b) \<and> x \<noteq> Fatal_error (EINTR b))) \<and>
    (pending w1 = es @ r # rs \<and> pending v = es @ r # rs \<and> retval r \<noteq> - 1 \<longrightarrow>
      (sockaddr_of b p = Some addr \<longrightarrow>
        local_socket_bind b p w =
          (Returns socket, \<lparr>pending = rs, issued = issued w1 @ replicate (Suc (length es))
             (SYS_bind (fd b socket) addr (addrlen_of b addr))\<rparr>) \<and>
        local_socket_connect b p w =
          (Returns socket, \<lparr>pending = rs, issued = issued w1 @ replicate (Suc (length es))
             (SYS_connect (fd b socket) addr (addrlen_of b addr))\<rparr>)) \<and>
      local_socket_accept b s w =
        (if HAVE_ACCEPT4 b \<and> SOCK_CLOEXEC b \<noteq> None
         then (Returns (Owns (retval r)),
               \<lparr>pending = rs, issued = issued w1 @ replicate (Suc (length es))
                  (accept_call b (fd b s))\<rparr>)
         else cloexec_true b (Owns (retval r))
               \<lparr>pending = rs, issued = issued w1 @ replicate (Suc (length es))
                  (accept_call b (fd b s))\<rparr> (Owns (retval r))) \<and>
      send_descriptor b s d v =
        (Returns (), \<lparr>pending = rs, issued = issued v @ replicate (Suc (length es))
           (SYS_sendmsg (fd b s) m 0)\<rparr>) \<and>
      recv_descriptor b s v =
        recv_descriptor b s \<lparr>pending = r # rs, issued = issued v @ replicate (length es)
           (SYS_recvmsg (fd b s) (recv_descriptor_msg b) (recv_descriptor_flags b))\<rparr>)"
proof (intro conjI impI)
  note es = assms(1)
  note accept = local_socket_accept_constructed [OF assms(2)]
  note send = send_descriptor_def assms(4)
  {
    assume "pending w1 = es \<and> pending v = es"
    then have p: "pending w1 = es" "pending v = es"
      by simp_all
    {
      assume built: "sockaddr_of b p = Some addr"
      show "local_socket_bind b p w =
          (None, \<lparr>pending = [], issued = issued w1 @ replicate (Suc (length es))
             (SYS_bind (fd b socket) addr (addrlen_of b addr))\<rparr>)"
        using bind_retry_interrupted [OF es, where rs = "[]"]
        by (simp add: local_socket_bind_constructed [OF assms(2,3) built] p
            replicate_append_same)
      show "local_socket_connect b p w =
          (None, \<lparr>pending = [], issued = issued w1 @ replicate (Suc (length es))
             (SYS_connect (fd b socket) addr (addrlen_of b addr))\<rparr>)"
        using connect_retry_interrupted [OF es, where rs = "[]"]
        by (simp add: local_socket_connect_constructed [OF assms(2,3) built] p
            replicate_append_same)
    }
    show "local_socket_accept b s w =
        (None, \<lparr>pending = [], issued = issued w1 @ replicate (Suc (length es))
           (accept_call b (fd b s))\<rparr>)"
      using accept_retry_interrupted [OF es, where rs = "[]"]
      by (simp add: accept p replicate_append_same)
    show "send_descriptor b s d v =
        (None, \<lparr>pending = [], issued = issued v @ replicate (Suc (length es))
           (SYS_sendmsg (fd b s) m 0)\<rparr>)"
      using sendmsg_retry_interrupted [OF es, where rs = "[]"]
      by (simp add: send p replicate_append_same)
    show "recv_descriptor b s v =
        (None, \<lparr>pending = [], issued = issued v @ replicate (Suc (length es))
           (SYS_recvmsg (fd b s) (recv_descriptor_msg b) (recv_descriptor_flags b))\<rparr>)"
      using recvmsg_retry_interrupted [OF es, where rs = "[]"]
      by (simp add: recv_descriptor_def Let_def p replicate_append_same)
  }
  {
    assume "pending w1 = es @ r # rs \<and> pending v = es @ r # rs \<and> retval r = - 1 \<and>
     errno r \<noteq> EINTR b"
    then have p: "pending w1 = es @ r # rs" "pending v = es @ r # rs"
      and r: "retval r = - 1" "errno r \<noteq> EINTR b"
      by simp_all
    {
      assume built: "sockaddr_of b p = Some addr"
      from r show "\<exists>x. local_socket_bind b p w =
           (Throws x, \<lparr>pending = rs, issued = issued w1 @ replicate (Suc (length es))
              (SYS_bind (fd b socket) addr (addrlen_of b addr))\<rparr>) \<and>
           x \<noteq> Error (EINTR b) \<and> x \<noteq> Fatal_error (EINTR b)"
        by (simp add: local_socket_bind_constructed [OF assms(2,3) built] p
            bind_retry_interrupted [OF es] replicate_append_same)
      from r show "\<exists>x. local_socket_connect b p w =
           (Throws x, \<lparr>pending = rs, issued = issued w1 @ replicate (Suc (length es))
              (SYS_connect (fd b socket) addr (addrlen_of b addr))\<rparr>) \<and>
           x \<noteq> Error (EINTR b) \<and> x \<noteq> Fatal_error (EINTR b)"
        by (simp add: local_socket_connect_constructed [OF assms(2,3) built] p
            connect_retry_interrupted [OF es] replicate_append_same)
    }
    from r show "\<exists>x. local_socket_accept b s w =
         (Throws x, \<lparr>pending = rs, issued = issued w1 @ replicate (Suc (length es))
            (accept_call b (fd b s))\<rparr>) \<and>
         x \<noteq> Error (EINTR b) \<and> x \<noteq> Fatal_error (EINTR b)"
      by (simp add: accept p accept_retry_interrupted [OF es] replicate_append_same)
    from r show "\<exists>x. send_descriptor b s d v =
         (Throws x, \<lparr>pending = rs, issued = issued v @ replicate (Suc (length es))
            (SYS_sendmsg (fd b s) m 0)\<rparr>) \<and>
         x \<noteq> Error (EINTR b) \<and> x \<noteq> Fatal_error (EINTR b)"
      by (simp add: send p sendmsg_retry_interrupted [OF es] replicate_append_same)
    from r show "\<exists>x. recv_descriptor b s v =
         (Throws x, \<lparr>pending = rs, issued = issued v @ replicate (Suc (length es))
            (SYS_recvmsg (fd b s) (recv_descriptor_msg b) (recv_descriptor_flags b))\<rparr>) \<and>
         x \<noteq> Error (EINTR b) \<and> x \<noteq> Fatal_error (EINTR b)"
      by (simp add: recv_descriptor_def Let_def p recvmsg_retry_interrupted [OF es]
          replicate_append_same)
  }
  {
    assume "pending w1 = es @ r # rs \<and> pending v = es @ r # rs \<and> retval r \<noteq> - 1"
    then have p: "pending w1 = es @ r # rs" "pending v = es @ r # rs" and r: "retval r \<noteq> - 1"
      by simp_all
    {
      assume built: "sockaddr_of b p = Some addr"
      from r show "local_socket_bind b p w =
          (Returns socket, \<lparr>pending = rs, issued = issued w1 @ replicate (Suc (length es))
             (SYS_bind (fd b socket) addr (addrlen_of b addr))\<rparr>)"
        by (simp add: local_socket_bind_constructed [OF assms(2,3) built] p
            bind_retry_interrupted [OF es] replicate_append_same)
      from r show "local_socket_connect b p w =
          (Returns socket, \<lparr>pending = rs, issued = issued w1 @ replicate (Suc (length es))
             (SYS_connect (fd b socket) addr (addrlen_of b addr))\<rparr>)"
        by (simp add: local_socket_connect_constructed [OF assms(2,3) built] p
            connect_retry_interrupted [OF es] replicate_append_same)
    }
    from r show "local_socket_accept b s w =
        (if HAVE_ACCEPT4 b \<and> SOCK_CLOEXEC b \<noteq> None
         then (Returns (Owns (retval r)),
               \<lparr>pending = rs, issued = issued w1 @ replicate (Suc (length es))
                  (accept_call b (fd b s))\<rparr>)
         else cloexec_true b (Owns (retval r))
               \<lparr>pending = rs, issued = issued w1 @ replicate (Suc (length es))
                  (accept_call b (fd b s))\<rparr> (Owns (retval r)))"
      by (auto simp: accept p accept_retry_interrupted [OF es] replicate_append_same)
    from r show "send_descriptor b s d v =
        (Returns (), \<lparr>pending = rs, issued = issued v @ replicate (Suc (length es))
           (SYS_sendmsg (fd b s) m 0)\<rparr>)"
      by (simp add: send p sendmsg_retry_interrupted [OF es] replicate_append_same)
    show "recv_descriptor b s v =
        recv_descriptor b s \<lparr>pending = r # rs, issued = issued v @ replicate (length es)
           (SYS_recvmsg (fd b s) (recv_descriptor_msg b) (recv_descriptor_flags b))\<rparr>"
      by (simp add: recv_descriptor_def Let_def p recvmsg_retry_interrupted [OF es])
  }
qed

theorem interrupted_calls_are_retried_witness:
  "local_socket_bind linux_x86_64 ''/tmp/s''
       \<lparr>pending = [succeeds 5, fails 4, fails 4], issued = []\<rparr> =
     (None, \<lparr>pending = [], issued = [SYS_socket 1 524289 0] @ replicate 3
         (SYS_bind 5 \<lparr>sun_family = 1, sun_path = ''/tmp/s'' @ [NUL]\<rparr> 8)\<rparr>) \<and>
   local_socket_connect linux_x86_64 ''/tmp/s''
       \<lparr>pending = [succeeds 5, fails 4, fails 4, succeeds 0], issued = []\<rparr> =
     (Returns (Owns 5), \<lparr>pending = [], issued = [SYS_socket 1 524289 0] @ replicate 3
         (SYS_connect 5 \<lparr>sun_family = 1, sun_path = ''/tmp/s'' @ [NUL]\<rparr> 8)\<rparr>) \<and>
   local_socket_accept linux_x86_64 (Owns 3)
       \<lparr>pending = [succeeds 5, fails 4, fails 4, succeeds 6], issued = []\<rparr> =
     (Returns (Owns 6), \<lparr>pending = [], issued = [SYS_socket 1 524289 0] @ replicate 3
         (SYS_accept4 3 524288)\<rparr>) \<and>
   (\<exists>x. local_socket_accept linux_x86_64 (Owns 3)
       \<lparr>pending = [succeeds 5, fails 4, fails 4, fails 24], issued = []\<rparr> =
     (Throws x, \<lparr>pending = [], issued = [SYS_socket 1 524289 0] @ replicate 3
         (SYS_accept4 3 524288)\<rparr>) \<and> x \<noteq> Error 4 \<and> x \<noteq> Fatal_error 4) \<and>
   (\<exists>m. send_descriptor linux_x86_64 (Owns 3) (Owns 7)
       \<lparr>pending = [fails 4, fails 4, succeeds 1], issued = [SYS_socket 1 524289 0]\<rparr> =
     (Returns (), \<lparr>pending = [], issued = [SYS_socket 1 524289 0] @ replicate 3
         (SYS_sendmsg 3 m 0)\<rparr>)) \<and>
   recv_descriptor linux_x86_64 (Owns 3)
       \<lparr>pending = [fails 4, fails 4], issued = [SYS_socket 1 524289 0]\<rparr> =
     (None, \<lparr>pending = [], issued = [SYS_socket 1 524289 0] @ replicate 3
         (SYS_recvmsg 3 (recv_descriptor_msg linux_x86_64) 1073741824)\<rparr>)"
proof -
  let ?b = linux_x86_64
  let ?es = "[fails 4, fails 4]"
  let ?tr = "[SYS_socket 1 524289 0]"
  let ?m = "\<lparr>msg_namelen = 0, msg_iov = [\<lparr>iov_base = Some [0], iov_len = 1\<rparr>], msg_iovlen = 1,
      msg_control = Some \<lparr>cmsg_len = 20, cmsg_level = 1, cmsg_type = 1, cmsg_data = 7\<rparr>,
      msg_controllen = 24, msg_flags = 0\<rparr>"
  have es: "\<forall>i\<in>set ?es. interrupted ?b i"
    by (simp add: interrupted_def fails_def linux_x86_64_def)
  have ctor: "local_socket_new ?b \<lparr>pending = succeeds 5 # rs, issued = []\<rparr> =
      (Returns (Owns 5), \<lparr>pending = rs, issued = ?tr\<rparr>)" for rs
    by (simp add: local_socket_new_def linux_x86_64_def succeeds_def assign_def Let_def)
  have ne: "NDEBUG ?b \<or> ''/tmp/s'' \<noteq> []"
    by simp
  have msg: "send_descriptor_msg ?b (Owns 7) = Inr ?m"
    by (simp add: send_descriptor_msg_def CMSG_FIRSTHDR_def linux_x86_64_def fd_def)
  have built: "sockaddr_of ?b ''/tmp/s'' = Some \<lparr>sun_family = 1, sun_path = ''/tmp/s'' @ [NUL]\<rparr>"
    by (simp add: sockaddr_of_def strcpy_def c_str_def NUL_def linux_x86_64_def Let_def)
  have len: "addrlen_of ?b \<lparr>sun_family = 1, sun_path = ''/tmp/s'' @ [NUL]\<rparr> = 8"
    by (simp add: addrlen_of_def strlen_def NUL_def linux_x86_64_def)
  have linux: "EINTR ?b = 4 \<and> HAVE_ACCEPT4 ?b \<and> SOCK_CLOEXEC ?b = Some 524288 \<and>
      recv_descriptor_flags ?b = 1073741824 \<and> accept_call ?b 3 = SYS_accept4 3 524288"
    by (simp add: linux_x86_64_def recv_descriptor_flags_def accept_call_def)
  have replies: "retval (fails 24) = - 1 \<and> errno (fails 24) = 24 \<and>
      retval (succeeds 0) = 0 \<and> retval (succeeds 1) = 1 \<and> retval (succeeds 6) = 6"
    by (simp add: fails_def succeeds_def)
  note only = interrupted_calls_are_retried [OF es ctor ne msg, where s = "Owns 3"
      and addr = "\<lparr>sun_family = 1, sun_path = ''/tmp/s'' @ [NUL]\<rparr>"
      and ?rs1 = "?es" and v = "\<lparr>pending = ?es, issued = ?tr\<rparr>"]
  note failure = interrupted_calls_are_retried [OF es ctor ne msg, where s = "Owns 3"
      and addr = "\<lparr>sun_family = 1, sun_path = ''/tmp/s'' @ [NUL]\<rparr>"
      and ?rs1 = "?es @ [fails 24]" and r = "fails 24" and rs = "[]"
      and v = "\<lparr>pending = ?es @ [fails 24], issued = ?tr\<rparr>"]
  note success0 = interrupted_calls_are_retried [OF es ctor ne msg, where s = "Owns 3"
      and addr = "\<lparr>sun_family = 1, sun_path = ''/tmp/s'' @ [NUL]\<rparr>"
      and ?rs1 = "?es @ [succeeds 0]" and r = "succeeds 0" and rs = "[]"
      and v = "\<lparr>pending = ?es @ [succeeds 0], issued = ?tr\<rparr>"]
  note success1 = interrupted_calls_are_retried [OF es ctor ne msg, where s = "Owns 3"
      and addr = "\<lparr>sun_family = 1, sun_path = ''/tmp/s'' @ [NUL]\<rparr>"
      and ?rs1 = "?es @ [succeeds 1]" and r = "succeeds 1" and rs = "[]"
      and v = "\<lparr>pending = ?es @ [succeeds 1], issued = ?tr\<rparr>"]
  note success6 = interrupted_calls_are_retried [OF es ctor ne msg, where s = "Owns 3"
      and addr = "\<lparr>sun_family = 1, sun_path = ''/tmp/s'' @ [NUL]\<rparr>"
      and ?rs1 = "?es @ [succeeds 6]" and r = "succeeds 6" and rs = "[]"
      and v = "\<lparr>pending = ?es @ [succeeds 6], issued = ?tr\<rparr>"]
  show ?thesis
    using only failure success0 success1 success6
    unfolding len by (simp add: built linux replies fd_def numeral_3_eq_3)
qed

end
